theory Spec2Isabelle
  imports Complex_Main "HOL-Library.Char_ord" "HOL-Library.List_Lexorder" "HOL-Library.Multiset"
    "HOL-Library.Product_Lexorder"
begin

section \<open>JavaScript numbers\<close>

text \<open>
  The engine is TypeScript; its numbers are IEEE 754 doubles. A number is a finite double
  (\<open>F x\<close>, of value \<open>x\<close>), \<open>Infinity\<close>, \<open>-Infinity\<close> or \<open>NaN\<close>. The sign of zero is not
  modelled: the code modelled here never tells \<open>-0\<close> from \<open>0\<close> (every zero it divides by
  is the \<open>+0\<close> of a length or of a square root, and \<open>-0 === 0\<close>).

  The finite doubles are the numbers \<open>m * 2 ^ e\<close> with \<open>\<bar>m\<bar> < 2 ^ 53\<close> and
  \<open>-1074 \<le> e \<le> 971\<close>. \<open>ulp_exp x\<close> is the exponent of the last place of the binade of
  \<open>x\<close> (\<open>2 ^ (e + 52) \<le> \<bar>x\<bar> < 2 ^ (e + 53)\<close>, and \<open>-1074\<close> in the subnormal range), and
  \<open>rd x\<close> is the multiple of \<open>2 ^ ulp_exp x\<close> nearest to \<open>x\<close>, a tie going to the even
  multiple: the rounding of every arithmetic operation. \<open>fl x\<close> is the number that an
  operation of exact result \<open>x\<close> returns: \<open>rd x\<close>, or an infinity when \<open>rd x\<close> is beyond the
  largest double. A decimal literal of the source denotes the double nearest to it:
  \<open>0.6\<close> is \<open>fl 0.6\<close>.
\<close>

datatype num = F real | PInf | NInf | NaN

definition round_even :: "real \<Rightarrow> int" where
  "round_even y =
     (let f = \<lfloor>y\<rfloor>; d = y - of_int f
      in if d < 1 / 2 then f else if 1 / 2 < d then f + 1 else if even f then f else f + 1)"

definition ulp_exp :: "real \<Rightarrow> int" where
  "ulp_exp x = max (\<lfloor>log 2 \<bar>x\<bar>\<rfloor> - 52) (- 1074)"

definition rd :: "real \<Rightarrow> real" where
  "rd x = (if x = 0 then 0 else of_int (round_even (x / 2 powi ulp_exp x)) * 2 powi ulp_exp x)"

definition fl :: "real \<Rightarrow> num" where
  "fl x = (let r = rd x in if 2 ^ 1024 \<le> \<bar>r\<bar> then (if 0 < r then PInf else NInf) else F r)"

fun sign_num :: "num \<Rightarrow> int" where
  "sign_num (F x) = (if 0 < x then 1 else if x < 0 then - 1 else 0)"
| "sign_num PInf = 1"
| "sign_num NInf = - 1"
| "sign_num NaN = 0"

definition signed_inf :: "int \<Rightarrow> num" where
  \<comment> \<open>the infinity of a sign; no sign (\<open>0 * Infinity\<close>, \<open>0 / 0\<close>) is \<open>NaN\<close>\<close>
  "signed_inf s = (if s = 0 then NaN else if 0 < s then PInf else NInf)"

fun fneg :: "num \<Rightarrow> num" where
  "fneg (F x) = F (- x)"
| "fneg PInf = NInf"
| "fneg NInf = PInf"
| "fneg NaN = NaN"

fun fadd :: "num \<Rightarrow> num \<Rightarrow> num" where
  \<comment> \<open>\<open>a + b\<close>\<close>
  "fadd (F x) (F y) = fl (x + y)"
| "fadd NaN b = NaN"
| "fadd a NaN = NaN"
| "fadd PInf NInf = NaN"
| "fadd NInf PInf = NaN"
| "fadd PInf b = PInf"
| "fadd NInf b = NInf"
| "fadd (F x) b = b"

definition fsub :: "num \<Rightarrow> num \<Rightarrow> num" where
  \<comment> \<open>\<open>a - b\<close>\<close>
  "fsub a b = fadd a (fneg b)"

fun fmul :: "num \<Rightarrow> num \<Rightarrow> num" where
  \<comment> \<open>\<open>a * b\<close>\<close>
  "fmul (F x) (F y) = fl (x * y)"
| "fmul a b = (if a = NaN \<or> b = NaN then NaN else signed_inf (sign_num a * sign_num b))"

fun fdiv :: "num \<Rightarrow> num \<Rightarrow> num" where
  \<comment> \<open>\<open>a / b\<close>; a zero divisor is \<open>+0\<close>\<close>
  "fdiv (F x) (F y) = (if y = 0 then signed_inf (sign_num (F x)) else fl (x / y))"
| "fdiv (F x) PInf = F 0"
| "fdiv (F x) NInf = F 0"
| "fdiv PInf (F y) = (if y < 0 then NInf else PInf)"
| "fdiv NInf (F y) = (if y < 0 then PInf else NInf)"
| "fdiv a b = NaN"

fun fsqrt :: "num \<Rightarrow> num" where
  \<comment> \<open>\<open>Math.sqrt\<close>, correctly rounded\<close>
  "fsqrt (F x) = (if x < 0 then NaN else fl (sqrt x))"
| "fsqrt PInf = PInf"
| "fsqrt NInf = NaN"
| "fsqrt NaN = NaN"

definition fpow2 :: "num \<Rightarrow> num" where
  \<comment> \<open>\<open>Math.pow(a, 2)\<close>, taken to be the correctly rounded square \<open>a * a\<close>\<close>
  "fpow2 a = fmul a a"

fun fabs :: "num \<Rightarrow> num" where
  \<comment> \<open>\<open>Math.abs\<close>\<close>
  "fabs (F x) = F \<bar>x\<bar>"
| "fabs PInf = PInf"
| "fabs NInf = PInf"
| "fabs NaN = NaN"

fun flt :: "num \<Rightarrow> num \<Rightarrow> bool" where
  \<comment> \<open>\<open>a < b\<close>: false when either is \<open>NaN\<close>\<close>
  "flt (F x) (F y) = (x < y)"
| "flt NaN b = False"
| "flt a NaN = False"
| "flt a NInf = False"
| "flt NInf b = True"
| "flt PInf b = False"
| "flt (F x) PInf = True"

definition feq :: "num \<Rightarrow> num \<Rightarrow> bool" where
  \<comment> \<open>\<open>a === b\<close> on numbers: \<open>NaN\<close> equals nothing\<close>
  "feq a b = (a = b \<and> a \<noteq> NaN)"

definition fle :: "num \<Rightarrow> num \<Rightarrow> bool" where
  \<comment> \<open>\<open>a <= b\<close>\<close>
  "fle a b = (flt a b \<or> feq a b)"

definition truthy :: "num \<Rightarrow> bool" where
  \<comment> \<open>a number is falsy when it is \<open>0\<close> or \<open>NaN\<close>\<close>
  "truthy a = (a \<noteq> NaN \<and> a \<noteq> F 0)"

definition Math_max2 :: "num \<Rightarrow> num \<Rightarrow> num" where
  \<comment> \<open>\<open>Math.max(a, b)\<close>: \<open>NaN\<close> when either is \<open>NaN\<close>\<close>
  "Math_max2 a b = (if a = NaN \<or> b = NaN then NaN else if flt a b then b else a)"

definition Math_min2 :: "num \<Rightarrow> num \<Rightarrow> num" where
  "Math_min2 a b = (if a = NaN \<or> b = NaN then NaN else if flt b a then b else a)"

definition Math_max :: "num list \<Rightarrow> num" where
  \<comment> \<open>\<open>Math.max(...xs)\<close>: \<open>-Infinity\<close> for no argument. The engine's limit on the number
      of arguments of one call (a spread of a very large array) is not modelled\<close>
  "Math_max xs = fold (\<lambda>x m. Math_max2 m x) xs NInf"

fun Math_round :: "num \<Rightarrow> num" where
  \<comment> \<open>\<open>Math.round\<close>: the nearest integer, a half going up; exact on doubles\<close>
  "Math_round (F x) = F (of_int \<lfloor>x + 1 / 2\<rfloor>)"
| "Math_round PInf = PInf"
| "Math_round NInf = NInf"
| "Math_round NaN = NaN"

text \<open>
  \<open>Number(x.toFixed(d))\<close>. \<open>toFixed\<close> writes the integer \<open>n\<close> for which \<open>n / 10 ^ d\<close> is
  nearest to the exact value of \<open>\<bar>x\<bar>\<close> (the larger \<open>n\<close> at a tie) as a decimal with \<open>d\<close>
  digits after the point, and \<open>Number\<close> reads the decimal back as the nearest double. From
  \<open>10 ^ 21\<close> on, and for an infinity or \<open>NaN\<close>, \<open>toFixed\<close> writes the number as
  \<open>String\<close> does, and \<open>Number\<close> reads the same number back.
\<close>

fun toFixed :: "nat \<Rightarrow> num \<Rightarrow> num" where
  "toFixed d (F x) =
     (if 10 ^ 21 \<le> \<bar>x\<bar> then F x
      else fl (sgn x * of_int \<lfloor>\<bar>x\<bar> * 10 ^ d + 1 / 2\<rfloor> / 10 ^ d))"
| "toFixed d PInf = PInf"
| "toFixed d NInf = NInf"
| "toFixed d NaN = NaN"

section \<open>JavaScript values\<close>

text \<open>
  A row of the player table (\<open>PlayerData\<close>, an object indexed by column name whose cells are
  \<open>string | number | undefined\<close>) is an association list in insertion order; a missing key
  is \<open>undefined\<close>. A numeric cell \<open>Num (F x)\<close> holds the double nearest to \<open>x\<close>, as a
  decimal literal does: \<open>dbl\<close> gives the number of a cell, and every read of a cell goes
  through it. Objects used as tables are read by their own keys only: a key that names a
  property of \<open>Object.prototype\<close> is outside the model. Where a name of the source is a
  constant of HOL or a keyword, the model's name has a suffix or a prefix (\<open>minB\<close>, \<open>maxB\<close>
  for the fields \<open>min\<close>, \<open>max\<close>; \<open>mvalue\<close> for \<open>value\<close>).
\<close>

datatype cell = Num num | Str string

type_synonym PlayerData = "(string \<times> cell) list"

definition field :: "PlayerData \<Rightarrow> string \<Rightarrow> cell option" where
  \<comment> \<open>\<open>p[key]\<close>\<close>
  "field p key = map_of p key"

fun dbl :: "num \<Rightarrow> num" where
  "dbl (F x) = fl x"
| "dbl PInf = PInf"
| "dbl NInf = NInf"
| "dbl NaN = NaN"

text \<open>
  \<open>Number(x)\<close>: a number is itself, \<open>undefined\<close> is \<open>NaN\<close>; a string goes through the
  language's StringToNumber, which is a builtin and not code of the repository: it is the
  parameter \<open>S\<close> of every function that converts a cell.
\<close>

fun Number_of :: "(string \<Rightarrow> num) \<Rightarrow> cell option \<Rightarrow> num" where
  "Number_of S None = NaN"
| "Number_of S (Some (Num v)) = dbl v"
| "Number_of S (Some (Str s)) = dbl (S s)"

definition num_or_0 :: "(string \<Rightarrow> num) \<Rightarrow> PlayerData \<Rightarrow> string \<Rightarrow> num" where
  \<comment> \<open>\<open>Number(p[key]) || 0\<close>\<close>
  "num_or_0 S p key = (let v = Number_of S (field p key) in if truthy v then v else F 0)"

fun strict_eq :: "cell option \<Rightarrow> cell option \<Rightarrow> bool" where
  \<comment> \<open>\<open>a === b\<close> on cells\<close>
  "strict_eq None None = True"
| "strict_eq (Some (Str a)) (Some (Str b)) = (a = b)"
| "strict_eq (Some (Num a)) (Some (Num b)) = feq (dbl a) (dbl b)"
| "strict_eq a b = False"

text \<open>
  Strings: \<open>s.split(c)\<close> and \<open>s.trim()\<close>. The white space that \<open>trim\<close> removes is taken
  to be the ASCII white space. A call that throws returns \<open>Inl\<close> of the error.
\<close>

datatype error = TypeError

fun split_on :: "char \<Rightarrow> string \<Rightarrow> string list" where
  "split_on c [] = [[]]"
| "split_on c (x # xs) =
     (if x = c then [] # split_on c xs
      else (case split_on c xs of w # ws \<Rightarrow> (x # w) # ws | [] \<Rightarrow> [[x]]))"

definition is_space :: "char \<Rightarrow> bool" where
  "is_space c = (c \<in> set [CHR '' '', CHR 0x09, CHR 0x0A, CHR 0x0B, CHR 0x0C, CHR 0x0D])"

definition trim :: "string \<Rightarrow> string" where
  "trim s = rev (dropWhile is_space (rev (dropWhile is_space s)))"

fun join_with :: "string \<Rightarrow> string list \<Rightarrow> string" where
  \<comment> \<open>\<open>xs.join(sep)\<close>\<close>
  "join_with sep [] = []"
| "join_with sep [x] = x"
| "join_with sep (x # y # zs) = x @ sep @ join_with sep (y # zs)"

fun map_throwing :: "('a \<Rightarrow> error + 'b) \<Rightarrow> 'a list \<Rightarrow> error + 'b list" where
  \<comment> \<open>\<open>xs.map(f)\<close> when \<open>f\<close> may throw: the first throw ends the call\<close>
  "map_throwing f [] = Inr []"
| "map_throwing f (x # xs) =
     (case f x of
        Inl e \<Rightarrow> Inl e
      | Inr y \<Rightarrow> (case map_throwing f xs of Inl e \<Rightarrow> Inl e | Inr ys \<Rightarrow> Inr (y # ys)))"

text \<open>
  \<open>xs.sort((a, b) => f(b) - f(a))\<close>. When no \<open>f x\<close> is \<open>NaN\<close> the comparator is consistent
  (the difference of two equal infinities is \<open>NaN\<close>, which \<open>sort\<close> reads as \<open>0\<close>) and the
  result is \<open>xs\<close> in descending order of \<open>f\<close>, elements of equal \<open>f\<close> keeping their order.
  With a \<open>NaN\<close> the comparator is not consistent and the order is the engine's: it is the
  parameter \<open>engine\<close>, and nothing is assumed of it.
\<close>

fun desc_key :: "num \<Rightarrow> int \<times> real" where
  \<comment> \<open>a key that is smaller for a greater number\<close>
  "desc_key PInf = (- 1, 0)"
| "desc_key (F x) = (0, - x)"
| "desc_key NInf = (1, 0)"
| "desc_key NaN = (2, 0)"

definition sort_desc_by :: "('a list \<Rightarrow> 'a list) \<Rightarrow> ('a \<Rightarrow> num) \<Rightarrow> 'a list \<Rightarrow> 'a list" where
  "sort_desc_by engine f xs =
     (if list_ex (\<lambda>x. f x = NaN) xs then engine xs else sort_key (\<lambda>x. desc_key (f x)) xs)"

definition sort_desc_size :: "('a \<Rightarrow> nat) \<Rightarrow> 'a list \<Rightarrow> 'a list" where
  \<comment> \<open>\<open>xs.sort((a, b) => f(b) - f(a))\<close> for a count \<open>f\<close>: descending, stable\<close>
  "sort_desc_size f xs = sort_key (\<lambda>x. - int (f x)) xs"

definition slice0 :: "int \<Rightarrow> 'a list \<Rightarrow> 'a list" where
  \<comment> \<open>\<open>xs.slice(0, e)\<close> for an integer \<open>e\<close>: a negative end counts from the end of the array\<close>
  "slice0 e xs = take (nat (if e < 0 then max (int (length xs) + e) 0 else e)) xs"

section \<open>Player service: statistical utilities\<close>

record MetricBounds =
  minB :: num
  maxB :: num
  mean :: num
  stdDev :: num

definition usableValues :: "(string \<Rightarrow> num) \<Rightarrow> PlayerData list \<Rightarrow> string \<Rightarrow> real list" where
  \<comment> \<open>\<open>data.map(p => Number(p[metricKey])).filter(v => !isNaN(v) && isFinite(v))\<close>: the
      values of the finite numbers\<close>
  "usableValues S data metricKey =
     List.map_filter (\<lambda>p. case Number_of S (field p metricKey) of F x \<Rightarrow> Some x | _ \<Rightarrow> None) data"

definition js_sum :: "num list \<Rightarrow> num" where
  \<comment> \<open>\<open>xs.reduce((a, b) => a + b, 0)\<close>\<close>
  "js_sum xs = fold (\<lambda>b a. fadd a b) xs (F 0)"

definition calculateMetricBounds ::
  "(string \<Rightarrow> num) \<Rightarrow> PlayerData list \<Rightarrow> string \<Rightarrow> MetricBounds" where
  "calculateMetricBounds S data metricKey =
     (let vals = usableValues S data metricKey in
      if length vals = 0 then \<lparr>minB = F 0, maxB = F 1, mean = F 0, stdDev = F 1\<rparr>
      else
        let mn = Min (set vals);
            mx = Max (set vals);
            mu = fdiv (js_sum (map F vals)) (F (real (length vals)));
            squaredDiffs = map (\<lambda>v. fpow2 (fsub (F v) mu)) vals;
            variance = fdiv (js_sum squaredDiffs) (F (real (length vals)));
            sd = (if truthy (fsqrt variance) then fsqrt variance else F 1)
        in \<lparr>minB = F mn, maxB = (if mx = mn then fadd (F mn) (F 1) else F mx), mean = mu,
            stdDev = sd\<rparr>)"

definition normalizeValue :: "num \<Rightarrow> MetricBounds \<Rightarrow> num" where
  "normalizeValue v bounds =
     (let range = fsub (maxB bounds) (minB bounds) in
      if feq range (F 0) then F (1 / 2)
      else Math_max2 (F 0) (Math_min2 (F 1) (fdiv (fsub v (minB bounds)) range)))"

definition calculateZScore :: "num \<Rightarrow> MetricBounds \<Rightarrow> num" where
  "calculateZScore v bounds =
     (if feq (stdDev bounds) (F 0) then F 0 else fdiv (fsub v (mean bounds)) (stdDev bounds))"

text \<open>
  \<open>calculatePercentile\<close> sorts a copy of the values and takes two counts from it. The
  sorted copy has the elements of \<open>allValues\<close>, so the counts are those of \<open>allValues\<close>:
  the copy is left out.
\<close>

definition calculatePercentile :: "num \<Rightarrow> num list \<Rightarrow> num" where
  "calculatePercentile v allValues =
     (if length allValues = 0 then F 50
      else
        let countBelow = length (filter (\<lambda>x. flt x v) allValues);
            countEqual = length (filter (\<lambda>x. feq x v) allValues);
            percentile =
              fmul (fdiv (fadd (F (real countBelow)) (fmul (F (1 / 2)) (F (real countEqual))))
                         (F (real (length allValues))))
                   (F 100)
        in Math_round (Math_max2 (F 0) (Math_min2 (F 100) percentile)))"

text \<open>
  The mid-rank percentile in exact arithmetic, as the specification writes it:
  \<open>round((countBelow + 0.5 * countEqual) / total * 100)\<close> clamped to \<open>[0, 100]\<close>.
\<close>

definition midrank_exact :: "num \<Rightarrow> num list \<Rightarrow> int" where
  "midrank_exact v allValues =
     max 0 (min 100
       \<lfloor>(real (length (filter (\<lambda>x. flt x v) allValues))
           + 1 / 2 * real (length (filter (\<lambda>x. feq x v) allValues)))
          / real (length allValues) * 100 + 1 / 2\<rfloor>)"

text \<open>A concrete input used below: eleven values \<open>0\<close>, one \<open>1\<close> and eight \<open>2\<close>.\<close>

definition twentyValues :: "num list" where
  "twentyValues =
     [F 0, F 0, F 0, F 0, F 0, F 0, F 0, F 0, F 0, F 0, F 0, F 1,
      F 2, F 2, F 2, F 2, F 2, F 2, F 2, F 2]"

text \<open>Rows with one metric column, for the concrete inputs used below.\<close>

definition metricRows :: "string \<Rightarrow> cell list \<Rightarrow> PlayerData list" where
  "metricRows k cs = map (\<lambda>c. [(''Player'', Str ''P''), (k, c)]) cs"

section \<open>Scoring utilities: role definitions and role scores\<close>

datatype RoleCategory = Goalkeeper | Defender | Midfielder | Attacker

text \<open>
  A role definition. \<open>metrics\<close> is the object of weights, in the order \<open>Object.entries\<close>
  walks it (the order it is written in). The free-text description is left out.
\<close>

record RoleDefinition =
  name :: string
  category :: RoleCategory
  positions :: "string list"
  metrics :: "(string \<times> real) list"

definition ROLE_DEFINITIONS :: "(string \<times> RoleDefinition) list" where
  "ROLE_DEFINITIONS = [
  (''Shot-Stopping Goalkeeper'',
   \<lparr>name = ''Shot-Stopping Goalkeeper'', category = Goalkeeper,
     positions = [''GK''],
     metrics =
       [(''Save rate, %'', 0.30),
        (''Prevented goals per 90'', 0.25),
        (''Clean sheets'', 0.15),
        (''Aerial duels won, %'', 0.10),
        (''Conceded goals per 90'', - 0.10),
        (''Shots against per 90'', 0.05),
        (''xG against per 90'', - 0.05)]\<rparr>),
  (''Sweeper Keeper'',
   \<lparr>name = ''Sweeper Keeper'', category = Goalkeeper,
     positions = [''GK''],
     metrics =
       [(''Exits per 90'', 0.25),
        (''Accurate passes, %'', 0.20),
        (''Accurate long passes, %'', 0.15),
        (''Save rate, %'', 0.15),
        (''Prevented goals per 90'', 0.10),
        (''Aerial duels per 90'', 0.10),
        (''Passes per 90'', 0.05)]\<rparr>),
  (''Ball-Playing Goalkeeper'',
   \<lparr>name = ''Ball-Playing Goalkeeper'', category = Goalkeeper,
     positions = [''GK''],
     metrics =
       [(''Accurate passes, %'', 0.25),
        (''Passes per 90'', 0.20),
        (''Accurate long passes, %'', 0.15),
        (''Save rate, %'', 0.15),
        (''Progressive passes per 90'', 0.10),
        (''Accurate short / medium passes, %'', 0.10),
        (''Prevented goals per 90'', 0.05)]\<rparr>),
  (''Defensive CB'',
   \<lparr>name = ''Defensive CB'', category = Defender,
     positions = [''CB'', ''LCB'', ''RCB''],
     metrics =
       [(''Defensive duels won, %'', 0.20),
        (''Aerial duels won, %'', 0.20),
        (''PAdj Interceptions'', 0.15),
        (''Shots blocked per 90'', 0.12),
        (''Successful defensive actions per 90'', 0.12),
        (''Duels won, %'', 0.10),
        (''Sliding tackles per 90'', 0.06),
        (''Fouls per 90'', - 0.05)]\<rparr>),
  (''Ball-Playing CB'',
   \<lparr>name = ''Ball-Playing CB'', category = Defender,
     positions = [''CB'', ''LCB'', ''RCB''],
     metrics =
       [(''Progressive passes per 90'', 0.22),
        (''Accurate passes, %'', 0.18),
        (''Accurate long passes, %'', 0.15),
        (''Passes to final third per 90'', 0.12),
        (''Defensive duels won, %'', 0.12),
        (''Passes per 90'', 0.08),
        (''PAdj Interceptions'', 0.08),
        (''Accurate forward passes, %'', 0.05)]\<rparr>),
  (''Wide CB'',
   \<lparr>name = ''Wide CB'', category = Defender,
     positions = [''CB'', ''LCB'', ''RCB''],
     metrics =
       [(''Progressive runs per 90'', 0.20),
        (''Progressive passes per 90'', 0.18),
        (''Defensive duels won, %'', 0.15),
        (''Accurate passes, %'', 0.12),
        (''Aerial duels won, %'', 0.12),
        (''Dribbles per 90'', 0.08),
        (''Successful defensive actions per 90'', 0.10),
        (''PAdj Interceptions'', 0.05)]\<rparr>),
  (''Attacking RB'',
   \<lparr>name = ''Attacking RB'', category = Defender,
     positions = [''RB'', ''RWB''],
     metrics =
       [(''xA per 90'', 0.18),
        (''Key passes per 90'', 0.15),
        (''Accurate crosses, %'', 0.14),
        (''Progressive runs per 90'', 0.14),
        (''Crosses per 90'', 0.10),
        (''Dribbles per 90'', 0.08),
        (''Defensive duels won, %'', 0.10),
        (''Successful dribbles, %'', 0.06),
        (''Deep completions per 90'', 0.05)]\<rparr>),
  (''Attacking LB'',
   \<lparr>name = ''Attacking LB'', category = Defender,
     positions = [''LB'', ''LWB''],
     metrics =
       [(''xA per 90'', 0.18),
        (''Key passes per 90'', 0.15),
        (''Accurate crosses, %'', 0.14),
        (''Progressive runs per 90'', 0.14),
        (''Crosses per 90'', 0.10),
        (''Dribbles per 90'', 0.08),
        (''Defensive duels won, %'', 0.10),
        (''Successful dribbles, %'', 0.06),
        (''Deep completions per 90'', 0.05)]\<rparr>),
  (''Defensive RB'',
   \<lparr>name = ''Defensive RB'', category = Defender,
     positions = [''RB'', ''RWB''],
     metrics =
       [(''Defensive duels won, %'', 0.25),
        (''PAdj Interceptions'', 0.20),
        (''Aerial duels won, %'', 0.15),
        (''Accurate passes, %'', 0.15),
        (''Successful defensive actions per 90'', 0.12),
        (''Duels won, %'', 0.08),
        (''Fouls per 90'', - 0.05)]\<rparr>),
  (''Defensive LB'',
   \<lparr>name = ''Defensive LB'', category = Defender,
     positions = [''LB'', ''LWB''],
     metrics =
       [(''Defensive duels won, %'', 0.25),
        (''PAdj Interceptions'', 0.20),
        (''Aerial duels won, %'', 0.15),
        (''Accurate passes, %'', 0.15),
        (''Successful defensive actions per 90'', 0.12),
        (''Duels won, %'', 0.08),
        (''Fouls per 90'', - 0.05)]\<rparr>),
  (''Inverted Fullback'',
   \<lparr>name = ''Inverted Fullback'', category = Defender,
     positions = [''RB'', ''LB'', ''RWB'', ''LWB''],
     metrics =
       [(''Progressive passes per 90'', 0.22),
        (''Passes per 90'', 0.18),
        (''Accurate passes, %'', 0.15),
        (''Key passes per 90'', 0.12),
        (''PAdj Interceptions'', 0.12),
        (''Passes to final third per 90'', 0.10),
        (''Accurate short / medium passes, %'', 0.06),
        (''Defensive duels won, %'', 0.05)]\<rparr>),
  (''Defensive Mid'',
   \<lparr>name = ''Defensive Mid'', category = Midfielder,
     positions = [''DMF'', ''LDMF'', ''RDMF''],
     metrics =
       [(''PAdj Interceptions'', 0.22),
        (''Defensive duels won, %'', 0.20),
        (''Successful defensive actions per 90'', 0.18),
        (''Aerial duels won, %'', 0.12),
        (''Accurate passes, %'', 0.10),
        (''Duels per 90'', 0.08),
        (''Shots blocked per 90'', 0.05),
        (''Fouls per 90'', - 0.05)]\<rparr>),
  (''Deep-Lying Playmaker'',
   \<lparr>name = ''Deep-Lying Playmaker'', category = Midfielder,
     positions = [''DMF'', ''LDMF'', ''RDMF'', ''LCMF'', ''RCMF''],
     metrics =
       [(''Progressive passes per 90'', 0.22),
        (''Passes per 90'', 0.18),
        (''Accurate passes, %'', 0.15),
        (''Passes to final third per 90'', 0.12),
        (''Accurate long passes, %'', 0.10),
        (''Key passes per 90'', 0.08),
        (''PAdj Interceptions'', 0.08),
        (''xA per 90'', 0.07)]\<rparr>),
  (''Ball-Winning Midfielder'',
   \<lparr>name = ''Ball-Winning Midfielder'', category = Midfielder,
     positions = [''DMF'', ''LDMF'', ''RDMF'', ''LCMF'', ''RCMF''],
     metrics =
       [(''PAdj Interceptions'', 0.25),
        (''Successful defensive actions per 90'', 0.22),
        (''Defensive duels won, %'', 0.20),
        (''Duels per 90'', 0.15),
        (''Aerial duels won, %'', 0.08),
        (''Sliding tackles per 90'', 0.05),
        (''Fouls per 90'', - 0.05)]\<rparr>),
  (''Box-to-Box'',
   \<lparr>name = ''Box-to-Box'', category = Midfielder,
     positions = [''LCMF'', ''RCMF'', ''DMF'', ''LDMF'', ''RDMF''],
     metrics =
       [(''Progressive runs per 90'', 0.15),
        (''Successful defensive actions per 90'', 0.15),
        (''xA per 90'', 0.12),
        (''Duels won, %'', 0.12),
        (''xG per 90'', 0.10),
        (''Passes per 90'', 0.10),
        (''Key passes per 90'', 0.08),
        (''PAdj Interceptions'', 0.08),
        (''Touches in box per 90'', 0.05),
        (''Shots per 90'', 0.05)]\<rparr>),
  (''Mezzala'',
   \<lparr>name = ''Mezzala'', category = Midfielder,
     positions = [''LCMF'', ''RCMF'', ''LAMF'', ''RAMF''],
     metrics =
       [(''Progressive runs per 90'', 0.20),
        (''xA per 90'', 0.18),
        (''Key passes per 90'', 0.15),
        (''Dribbles per 90'', 0.12),
        (''xG per 90'', 0.12),
        (''Successful dribbles, %'', 0.08),
        (''Touches in box per 90'', 0.08),
        (''Shot assists per 90'', 0.07)]\<rparr>),
  (''Carrilero'',
   \<lparr>name = ''Carrilero'', category = Midfielder,
     positions = [''LCMF'', ''RCMF'', ''DMF''],
     metrics =
       [(''Passes per 90'', 0.20),
        (''Accurate passes, %'', 0.18),
        (''Successful defensive actions per 90'', 0.15),
        (''Progressive passes per 90'', 0.15),
        (''Duels won, %'', 0.12),
        (''PAdj Interceptions'', 0.10),
        (''Passes to final third per 90'', 0.10)]\<rparr>),
  (''Advanced Playmaker'',
   \<lparr>name = ''Advanced Playmaker'', category = Midfielder,
     positions = [''AMF'', ''LAMF'', ''RAMF''],
     metrics =
       [(''xA per 90'', 0.22),
        (''Key passes per 90'', 0.18),
        (''Shot assists per 90'', 0.15),
        (''Progressive passes per 90'', 0.12),
        (''Deep completions per 90'', 0.10),
        (''Passes to penalty area per 90'', 0.08),
        (''Through passes per 90'', 0.08),
        (''Smart passes per 90'', 0.07)]\<rparr>),
  (''Shadow Striker'',
   \<lparr>name = ''Shadow Striker'', category = Midfielder,
     positions = [''AMF'', ''LAMF'', ''RAMF'', ''CF''],
     metrics =
       [(''xG per 90'', 0.25),
        (''Goals per 90'', 0.20),
        (''Shots per 90'', 0.15),
        (''Touches in box per 90'', 0.15),
        (''Shots on target, %'', 0.10),
        (''Offensive duels won, %'', 0.08),
        (''xA per 90'', 0.07)]\<rparr>),
  (''Trequartista'',
   \<lparr>name = ''Trequartista'', category = Midfielder,
     positions = [''AMF'', ''LAMF'', ''RAMF''],
     metrics =
       [(''xA per 90'', 0.20),
        (''xG per 90'', 0.18),
        (''Key passes per 90'', 0.15),
        (''Dribbles per 90'', 0.12),
        (''Shot assists per 90'', 0.10),
        (''Successful dribbles, %'', 0.10),
        (''Through passes per 90'', 0.08),
        (''Touches in box per 90'', 0.07)]\<rparr>),
  (''Inside Forward'',
   \<lparr>name = ''Inside Forward'', category = Attacker,
     positions = [''LW'', ''RW'', ''LWF'', ''RWF'', ''LAMF'', ''RAMF''],
     metrics =
       [(''xG per 90'', 0.22),
        (''Goals per 90'', 0.18),
        (''Shots per 90'', 0.12),
        (''Shots on target, %'', 0.12),
        (''Dribbles per 90'', 0.10),
        (''Touches in box per 90'', 0.10),
        (''Successful dribbles, %'', 0.08),
        (''Non-penalty goals per 90'', 0.08)]\<rparr>),
  (''Inverted Winger'',
   \<lparr>name = ''Inverted Winger'', category = Attacker,
     positions = [''LW'', ''RW'', ''LWF'', ''RWF'', ''LAMF'', ''RAMF''],
     metrics =
       [(''xA per 90'', 0.20),
        (''Key passes per 90'', 0.18),
        (''Progressive passes per 90'', 0.15),
        (''Dribbles per 90'', 0.12),
        (''Shot assists per 90'', 0.10),
        (''Passes to penalty area per 90'', 0.10),
        (''Through passes per 90'', 0.08),
        (''Successful dribbles, %'', 0.07)]\<rparr>),
  (''Traditional Winger'',
   \<lparr>name = ''Traditional Winger'', category = Attacker,
     positions = [''LW'', ''RW'', ''LWF'', ''RWF''],
     metrics =
       [(''Accurate crosses, %'', 0.20),
        (''Crosses per 90'', 0.18),
        (''xA per 90'', 0.15),
        (''Dribbles per 90'', 0.15),
        (''Successful dribbles, %'', 0.12),
        (''Progressive runs per 90'', 0.10),
        (''Deep completions per 90'', 0.05),
        (''Key passes per 90'', 0.05)]\<rparr>),
  (''Wide Playmaker'',
   \<lparr>name = ''Wide Playmaker'', category = Attacker,
     positions = [''LW'', ''RW'', ''LWF'', ''RWF'', ''LAMF'', ''RAMF''],
     metrics =
       [(''xA per 90'', 0.22),
        (''Key passes per 90'', 0.18),
        (''Progressive passes per 90'', 0.15),
        (''Shot assists per 90'', 0.12),
        (''Passes to penalty area per 90'', 0.10),
        (''Passes per 90'', 0.08),
        (''Through passes per 90'', 0.08),
        (''Accurate passes, %'', 0.07)]\<rparr>),
  (''Advanced Striker'',
   \<lparr>name = ''Advanced Striker'', category = Attacker,
     positions = [''CF''],
     metrics =
       [(''xG per 90'', 0.22),
        (''Goals per 90'', 0.18),
        (''Shots on target, %'', 0.15),
        (''Touches in box per 90'', 0.12),
        (''Offensive duels won, %'', 0.10),
        (''Shots per 90'', 0.08),
        (''Head goals per 90'', 0.08),
        (''Non-penalty goals per 90'', 0.07)]\<rparr>),
  (''Poacher'',
   \<lparr>name = ''Poacher'', category = Attacker,
     positions = [''CF''],
     metrics =
       [(''Goals per 90'', 0.28),
        (''xG per 90'', 0.22),
        (''Shots on target, %'', 0.18),
        (''Touches in box per 90'', 0.15),
        (''Goal conversion, %'', 0.12),
        (''Non-penalty goals per 90'', 0.05)]\<rparr>),
  (''Target Man'',
   \<lparr>name = ''Target Man'', category = Attacker,
     positions = [''CF''],
     metrics =
       [(''Aerial duels won, %'', 0.25),
        (''Duels won, %'', 0.18),
        (''xG per 90'', 0.15),
        (''xA per 90'', 0.12),
        (''Head goals per 90'', 0.12),
        (''Offensive duels won, %'', 0.10),
        (''Key passes per 90'', 0.08)]\<rparr>),
  (''False 9'',
   \<lparr>name = ''False 9'', category = Attacker,
     positions = [''CF'', ''AMF''],
     metrics =
       [(''xA per 90'', 0.22),
        (''Key passes per 90'', 0.18),
        (''Progressive passes per 90'', 0.15),
        (''Dribbles per 90'', 0.12),
        (''xG per 90'', 0.10),
        (''Shot assists per 90'', 0.10),
        (''Passes to penalty area per 90'', 0.08),
        (''Through passes per 90'', 0.05)]\<rparr>),
  (''Pressing Forward'',
   \<lparr>name = ''Pressing Forward'', category = Attacker,
     positions = [''CF'', ''LW'', ''RW''],
     metrics =
       [(''Successful defensive actions per 90'', 0.22),
        (''xG per 90'', 0.18),
        (''Duels per 90'', 0.18),
        (''Progressive runs per 90'', 0.15),
        (''Offensive duels won, %'', 0.12),
        (''xA per 90'', 0.08),
        (''Fouls suffered per 90'', 0.07)]\<rparr>),
  (''Complete Forward'',
   \<lparr>name = ''Complete Forward'', category = Attacker,
     positions = [''CF''],
     metrics =
       [(''xG per 90'', 0.16),
        (''xA per 90'', 0.14),
        (''Goals per 90'', 0.12),
        (''Key passes per 90'', 0.12),
        (''Aerial duels won, %'', 0.12),
        (''Dribbles per 90'', 0.10),
        (''Shots on target, %'', 0.08),
        (''Offensive duels won, %'', 0.08),
        (''Touches in box per 90'', 0.08)]\<rparr>)]"


record BreakdownEntry =
  metric :: string
  mvalue :: num
  weight :: num
  contribution :: num

record RoleScoreResult =
  role :: string
  rawScore :: num
  normalizedScore :: num
  percentile :: num
  breakdown :: "BreakdownEntry list"

text \<open>
  The scoring functions read the module constant \<open>ROLE_DEFINITIONS\<close>. Here the table is the
  first argument \<open>defs\<close>; the program is the instance \<open>defs = ROLE_DEFINITIONS\<close>. The table
  holds the weights as the source writes them; the number of a weight \<open>w\<close> is \<open>fl w\<close>.
\<close>

definition calculateRoleScore ::
  "(string \<times> RoleDefinition) list \<Rightarrow> (string \<Rightarrow> num) \<Rightarrow> PlayerData \<Rightarrow> string \<Rightarrow> bool
     \<Rightarrow> (string \<rightharpoonup> num) option \<Rightarrow> num" where
  "calculateRoleScore defs S player r doNormalize maxScores =
     (case map_of defs r of
        None \<Rightarrow> F 0
      | Some d \<Rightarrow>
          let score = fold (\<lambda>(m, w) score. fadd score (fmul (num_or_0 S player m) (fl w)))
                        (metrics d) (F 0)
          in case (if doNormalize then maxScores else None) of
               Some ms \<Rightarrow>
                 (case ms r of
                    Some mx \<Rightarrow>
                      if flt (F 0) mx then Math_round (fmul (fdiv score mx) (F 100))
                      else toFixed 2 score
                  | None \<Rightarrow> toFixed 2 score)
             | None \<Rightarrow> toFixed 2 score)"

text \<open>
  \<open>calculateDetailedRoleScore\<close>. The sorted copy of the cohort scores is used for a count
  only, and a sorted copy has the elements of the array: it is left out.
\<close>

definition calculateDetailedRoleScore ::
  "(string \<times> RoleDefinition) list \<Rightarrow> (BreakdownEntry list \<Rightarrow> BreakdownEntry list)
     \<Rightarrow> (string \<Rightarrow> num) \<Rightarrow> PlayerData \<Rightarrow> string \<Rightarrow> PlayerData list \<Rightarrow> RoleScoreResult option" where
  "calculateDetailedRoleScore defs engine S player r cohort =
     (case map_of defs r of
        None \<Rightarrow> None
      | Some d \<Rightarrow>
          let (raw, entries) =
                fold (\<lambda>(m, w) (raw, entries).
                        let v = num_or_0 S player m;
                            c = fmul v (fl w)
                        in (fadd raw c,
                            entries @ [\<lparr>metric = m, mvalue = v, weight = fl w,
                                        contribution = toFixed 3 c\<rparr>]))
                  (metrics d) (F 0, []);
              cohortScores = map (\<lambda>p. calculateRoleScore defs S p r False None) cohort;
              maxScore = Math_max (cohortScores @ [F 1]);
              normalized = Math_round (fmul (fdiv raw maxScore) (F 100));
              rank = length (filter (\<lambda>s. flt s raw) cohortScores);
              pct = Math_round (fmul (fdiv (F (real rank)) (F (real (length cohortScores)))) (F 100))
          in Some \<lparr>role = r, rawScore = toFixed 2 raw, normalizedScore = normalized,
                    percentile = pct, breakdown = sort_desc_by engine contribution entries\<rparr>)"

definition calculateMaxScores ::
  "(string \<times> RoleDefinition) list \<Rightarrow> (string \<Rightarrow> num) \<Rightarrow> PlayerData list \<Rightarrow> (string \<rightharpoonup> num)" where
  \<comment> \<open>for every role of the table, the greatest score of the data when it is positive, else \<open>1\<close>\<close>
  "calculateMaxScores defs S data =
     map_of (map (\<lambda>(r, d).
                    (r, let mx = fold (\<lambda>player mx.
                                         let score = calculateRoleScore defs S player r False None
                                         in if flt mx score then score else mx)
                                   data (F 0)
                        in if flt (F 0) mx then mx else F 1))
               defs)"

text \<open>
  The raw role score, the sum that the loop of both scoring functions accumulates
  (\<open>score += value * weight\<close> over the metrics of the role, in their order), and the entry
  that the loop of \<open>calculateDetailedRoleScore\<close> pushes for one metric.
\<close>

definition rawRoleScore :: "RoleDefinition \<Rightarrow> (string \<Rightarrow> num) \<Rightarrow> PlayerData \<Rightarrow> num" where
  "rawRoleScore d S player =
     fold (\<lambda>(m, w) score. fadd score (fmul (num_or_0 S player m) (fl w))) (metrics d) (F 0)"

definition breakdownEntry :: "(string \<Rightarrow> num) \<Rightarrow> PlayerData \<Rightarrow> string \<times> real \<Rightarrow> BreakdownEntry" where
  "breakdownEntry S player mw =
     \<lparr>metric = fst mw, mvalue = num_or_0 S player (fst mw), weight = fl (snd mw),
      contribution = toFixed 3 (fmul (num_or_0 S player (fst mw)) (fl (snd mw)))\<rparr>"

text \<open>Concrete inputs used below: two roles of the table by name, and player rows.\<close>

definition targetMan :: RoleDefinition where
  "targetMan =
     \<lparr>name = ''Target Man'', category = Attacker, positions = [''CF''],
      metrics =
        [(''Aerial duels won, %'', 0.25), (''Duels won, %'', 0.18), (''xG per 90'', 0.15),
         (''xA per 90'', 0.12), (''Head goals per 90'', 0.12),
         (''Offensive duels won, %'', 0.10), (''Key passes per 90'', 0.08)]\<rparr>"

definition defensiveCB :: RoleDefinition where
  "defensiveCB =
     \<lparr>name = ''Defensive CB'', category = Defender, positions = [''CB'', ''LCB'', ''RCB''],
      metrics =
        [(''Defensive duels won, %'', 0.20), (''Aerial duels won, %'', 0.20),
         (''PAdj Interceptions'', 0.15), (''Shots blocked per 90'', 0.12),
         (''Successful defensive actions per 90'', 0.12), (''Duels won, %'', 0.10),
         (''Sliding tackles per 90'', 0.06), (''Fouls per 90'', - 0.05)]\<rparr>"

definition aerial :: "real \<Rightarrow> PlayerData" where
  "aerial x = [(''Player'', Str ''A''), (''Position'', Str ''CF''), (''Aerial duels won, %'', Num (F x))]"

definition fouler :: PlayerData where
  "fouler = [(''Player'', Str ''C''), (''Position'', Str ''CB''),
             (''Duels won, %'', Num (F 10)), (''Fouls per 90'', Num (F 100))]"

section \<open>Data store\<close>

text \<open>
  The store is two module variables, \<open>state\<close> and \<open>computedCache\<close>; every exported
  function reads and assigns them. Here both are one value that each function takes and
  returns. Strings are compared and sorted by code unit (\<open>Array.prototype.sort\<close> without a
  comparator), which on \<^typ>\<open>string\<close> is the lexicographic order on characters. A shot event
  is opaque to the functions modelled here (type \<open>'shot\<close>). Listeners are the callers'
  callbacks and hold no data of the store: \<open>notifyListeners\<close> is left out. The time stamp
  \<open>new Date().toISOString()\<close> is the argument \<open>now\<close>.
\<close>

record TeamStats =
  team :: string
  league :: string
  season :: string
  stats :: "(string \<times> num) list"

record 'shot DataStoreState =
  players :: "PlayerData list"
  teams :: "TeamStats list"
  shots :: "'shot list"
  isLoading :: bool
  errors :: "string list"
  lastUpdated :: "string option"

record DatasetStats =
  playerCount :: nat
  teamCount :: nat
  shotCount :: nat
  leagues :: "string list"
  seasons :: "string list"
  positions_found :: "string list"
  countries :: "string list"
  metricCount :: nat

record ComputedCache =
  leagues_cache :: "string list option"
  teams_cache :: "string list option"
  positions_cache :: "string list option"
  nationalities_cache :: "string list option"
  metricKeys_cache :: "string list option"
  metricBounds_cache :: "(string \<times> MetricBounds) list option"
  datasetStats_cache :: "DatasetStats option"

record 'shot Store =
  state :: "'shot DataStoreState"
  computedCache :: ComputedCache

definition truthy_strings :: "cell option list \<Rightarrow> string list" where
  \<comment> \<open>\<open>.filter(Boolean)\<close> on cells declared \<open>string\<close>: the non-empty strings\<close>
  "truthy_strings cs = List.map_filter (\<lambda>c. case c of Some (Str s) \<Rightarrow> if s = [] then None else Some s | _ \<Rightarrow> None) cs"

definition extractLeagues :: "PlayerData list \<Rightarrow> string list" where
  \<comment> \<open>\<open>Array.from(new Set(data.map(p => p.League).filter(Boolean))).sort()\<close>\<close>
  "extractLeagues data = sort (remdups (truthy_strings (map (\<lambda>p. field p ''League'') data)))"

definition extractTeams :: "PlayerData list \<Rightarrow> string list" where
  "extractTeams data = sort (remdups (truthy_strings (map (\<lambda>p. field p ''Team'') data)))"

definition emptyCache :: ComputedCache where
  "emptyCache = \<lparr>leagues_cache = None, teams_cache = None, positions_cache = None,
                  nationalities_cache = None, metricKeys_cache = None,
                  metricBounds_cache = None, datasetStats_cache = None\<rparr>"

definition initialStore :: "'shot Store" where
  "initialStore =
     \<lparr>state = \<lparr>players = [], teams = [], shots = [], isLoading = False, errors = [],
                lastUpdated = None\<rparr>,
      computedCache = emptyCache\<rparr>"

definition invalidateCache :: "'shot Store \<Rightarrow> 'shot Store" where
  "invalidateCache st = st\<lparr>computedCache := emptyCache\<rparr>"

definition setPlayers :: "string \<Rightarrow> PlayerData list \<Rightarrow> 'shot Store \<Rightarrow> 'shot Store" where
  "setPlayers now ps st =
     invalidateCache (st\<lparr>state := (state st)\<lparr>players := ps, lastUpdated := Some now\<rparr>\<rparr>)"

definition setTeams :: "string \<Rightarrow> TeamStats list \<Rightarrow> 'shot Store \<Rightarrow> 'shot Store" where
  "setTeams now ts st = st\<lparr>state := (state st)\<lparr>teams := ts, lastUpdated := Some now\<rparr>\<rparr>"

definition setShots :: "string \<Rightarrow> 'shot list \<Rightarrow> 'shot Store \<Rightarrow> 'shot Store" where
  "setShots now ss st = st\<lparr>state := (state st)\<lparr>shots := ss, lastUpdated := Some now\<rparr>\<rparr>"

definition getLeagues :: "'shot Store \<Rightarrow> string list \<times> 'shot Store" where
  "getLeagues st =
     (case leagues_cache (computedCache st) of
        Some ls \<Rightarrow> (ls, st)
      | None \<Rightarrow>
          let ls = extractLeagues (players (state st))
          in (ls, st\<lparr>computedCache := (computedCache st)\<lparr>leagues_cache := Some ls\<rparr>\<rparr>))"

definition getTeams :: "'shot Store \<Rightarrow> string list \<times> 'shot Store" where
  "getTeams st =
     (case teams_cache (computedCache st) of
        Some ts \<Rightarrow> (ts, st)
      | None \<Rightarrow>
          let playerTeams = extractTeams (players (state st));
              statsTeams = map team (teams (state st));
              allTeams = remdups (playerTeams @ statsTeams);
              ts = sort allTeams
          in (ts, st\<lparr>computedCache := (computedCache st)\<lparr>teams_cache := Some ts\<rparr>\<rparr>))"

text \<open>
  The value \<open>getTeams\<close> derives from the data of the store, with no cache: what a getter
  "recomputed from the post-mutation data" returns.
\<close>

definition teamsOfData :: "'shot DataStoreState \<Rightarrow> string list" where
  "teamsOfData s = sort (remdups (extractTeams (players s) @ map team (teams s)))"

definition arsenal :: TeamStats where
  "arsenal = \<lparr>team = ''Arsenal'', league = ''Premier League'', season = ''2024-25'', stats = []\<rparr>"

section \<open>Analytics service: k-means clustering\<close>

text \<open>
  \<open>k\<close> and \<open>maxIterations\<close> are JavaScript numbers; the model takes them to be integers.
  The shuffle \<open>[...vectors].sort(() => Math.random() - 0.5)\<close> returns an arrangement of the
  vectors that the engine and the random source choose: it is the parameter \<open>shuffle\<close>, and
  nothing is assumed of it.
\<close>

record ClusterConfig =
  cfg_k :: int
  cfg_maxIterations :: int
  cfg_metrics :: "string list"

record ClusterResult =
  clusterId :: nat
  centroid :: "num list"
  clusterPlayers :: "PlayerData list"
  clusterSize :: nat
  label :: string

definition euclideanDistance :: "num list \<Rightarrow> num list \<Rightarrow> num" where
  \<comment> \<open>the loop runs over the indices of \<open>a\<close>; every call has \<open>length a = length b\<close>\<close>
  "euclideanDistance a b = fsqrt (fold (\<lambda>(x, y) sum. fadd sum (fpow2 (fsub x y))) (zip a b) (F 0))"

definition nearestCentroid :: "num list list \<Rightarrow> num list \<Rightarrow> nat" where
  \<comment> \<open>\<open>minDist\<close> starts at \<open>Infinity\<close>, \<open>minIndex\<close> at \<open>0\<close>\<close>
  "nearestCentroid centroids vector =
     snd (fold (\<lambda>(idx, c) (minDist, minIndex).
                  let dist = euclideanDistance vector c
                  in if flt dist minDist then (dist, idx) else (minDist, minIndex))
            (zip [0..<length centroids] centroids) (PInf, 0))"

definition membersOf :: "nat list \<Rightarrow> 'a list \<Rightarrow> nat \<Rightarrow> 'a list" where
  \<comment> \<open>\<open>xs.filter((_, i) => assignments[i] === idx)\<close>\<close>
  "membersOf assignments xs idx = map snd (filter (\<lambda>(a, x). a = idx) (zip assignments xs))"

definition updateCentroids :: "num list list \<Rightarrow> nat list \<Rightarrow> num list list \<Rightarrow> num list list" where
  "updateCentroids vectors assignments centroids =
     map (\<lambda>(clusterIdx, old).
            let clusterVectors = membersOf assignments vectors clusterIdx
            in if length clusterVectors = 0 then old
               else map (\<lambda>dimIdx.
                           fdiv (fold (\<lambda>v acc. fadd acc (v ! dimIdx)) clusterVectors (F 0))
                                (F (real (length clusterVectors))))
                      [0..<length (hd clusterVectors)])
       (zip [0..<length centroids] centroids)"

text \<open>
  The loop \<open>for (iteration = 0; iteration < maxIterations; iteration++)\<close>. The first
  argument is the number of iterations left; \<open>rounds\<close> counts the rounds started and is not
  a variable of the source. A round computes the new assignments; when they equal the
  current ones the loop breaks, else they become current and the centroids are recomputed.
\<close>

fun kMeansLoop ::
  "nat \<Rightarrow> num list list \<Rightarrow> num list list \<Rightarrow> nat list \<Rightarrow> nat
     \<Rightarrow> num list list \<times> nat list \<times> nat" where
  "kMeansLoop 0 vectors centroids assignments rounds = (centroids, assignments, rounds)"
| "kMeansLoop (Suc n) vectors centroids assignments rounds =
     (let newAssignments = map (nearestCentroid centroids) vectors
      in if assignments = newAssignments then (centroids, assignments, Suc rounds)
         else kMeansLoop n vectors (updateCentroids vectors newAssignments centroids)
                newAssignments (Suc rounds))"

text \<open>
  One round that does not break, as a step on the pair of centroids and assignments, and
  the test that makes a round break.
\<close>

definition kMeansStep :: "num list list \<Rightarrow> num list list \<times> nat list \<Rightarrow> num list list \<times> nat list" where
  "kMeansStep vectors s =
     (updateCentroids vectors (map (nearestCentroid (fst s)) vectors) (fst s),
      map (nearestCentroid (fst s)) vectors)"

definition converged :: "num list list \<Rightarrow> num list list \<times> nat list \<Rightarrow> bool" where
  \<comment> \<open>\<open>arraysEqual(assignments, newAssignments)\<close>\<close>
  "converged vectors s = (snd s = map (nearestCentroid (fst s)) vectors)"

definition kMeansVectors ::
  "(string \<Rightarrow> num) \<Rightarrow> PlayerData list \<Rightarrow> string list \<Rightarrow> num list list" where
  "kMeansVectors S data ms =
     map (\<lambda>player. map (\<lambda>m. normalizeValue (num_or_0 S player m) (calculateMetricBounds S data m)) ms)
       data"

text \<open>
  \<open>generateClusterLabel\<close>. The counts of first positions are an object; its entries are
  listed in insertion order (position names are taken not to be array indices). A player
  whose \<open>Position\<close> cell is a number makes \<open>split\<close> throw.
\<close>

definition firstPosition :: "PlayerData \<Rightarrow> error + string" where
  \<comment> \<open>\<open>p.Position?.split(',')[0]?.trim() || 'Unknown'\<close>\<close>
  "firstPosition p =
     (case field p ''Position'' of
        None \<Rightarrow> Inr ''Unknown''
      | Some (Num r) \<Rightarrow> Inl TypeError
      | Some (Str s) \<Rightarrow>
          (case split_on CHR '','' s of
             w # _ \<Rightarrow> Inr (if trim w = [] then ''Unknown'' else trim w)
           | [] \<Rightarrow> Inr ''Unknown''))"

fun countPosition :: "string \<Rightarrow> (string \<times> nat) list \<Rightarrow> (string \<times> nat) list" where
  \<comment> \<open>\<open>positions[pos] = (positions[pos] || 0) + 1\<close>\<close>
  "countPosition pos [] = [(pos, 1)]"
| "countPosition pos ((key, n) # rest) =
     (if key = pos then (key, n + 1) # rest else (key, n) # countPosition pos rest)"

definition firstWord :: "string \<Rightarrow> string" where
  \<comment> \<open>\<open>m.split(' ')[0]\<close>\<close>
  "firstWord m = (case split_on CHR '' '' m of w # _ \<Rightarrow> w | [] \<Rightarrow> [])"

definition generateClusterLabel ::
  "(string \<Rightarrow> num) \<Rightarrow> PlayerData list \<Rightarrow> string list \<Rightarrow> (string \<Rightarrow> MetricBounds)
     \<Rightarrow> error + string" where
  "generateClusterLabel S ps ms bounds =
     (if length ps = 0 then Inr ''Empty''
      else
        let clusterMeans = (\<lambda>m. fdiv (js_sum (map (\<lambda>p. num_or_0 S p m) ps)) (F (real (length ps))));
            strengths =
              map firstWord
                (filter (\<lambda>m. flt (fl 0.7) (normalizeValue (clusterMeans m) (bounds m))) ms)
        in if length strengths > 0 then Inr (''High '' @ join_with ''/'' (take 2 strengths))
           else
             case map_throwing firstPosition ps of
               Inl e \<Rightarrow> Inl e
             | Inr firsts \<Rightarrow>
                 (case sort_desc_size snd (fold countPosition firsts []) of
                    dominantPos # _ \<Rightarrow> Inr (fst dominantPos @ '' Group'')
                  | [] \<Rightarrow> Inr ''Mixed''))"

text \<open>
  \<open>kMeansRun\<close> is the body of \<open>kMeansClustering\<close>; beside the value that the function
  returns (or the error it throws) it gives the number of rounds the loop started.
\<close>

definition kMeansRun ::
  "(num list list \<Rightarrow> num list list) \<Rightarrow> (string \<Rightarrow> num) \<Rightarrow> PlayerData list
     \<Rightarrow> ClusterConfig \<Rightarrow> nat \<times> (error + ClusterResult list)" where
  "kMeansRun shuffle S data config =
     (if int (length data) < cfg_k config \<or> length (cfg_metrics config) = 0 then (0, Inr [])
      else
        let bounds = (\<lambda>m. calculateMetricBounds S data m);
            vectors = kMeansVectors S data (cfg_metrics config);
            shuffled = shuffle vectors;
            centroids0 = slice0 (cfg_k config) shuffled;
            assignments0 = replicate (length vectors) 0;
            (centroids, assignments, rounds) =
              kMeansLoop (nat (cfg_maxIterations config)) vectors centroids0 assignments0 0;
            results =
              map_throwing
                (\<lambda>(idx, c).
                   let clusterPlayers = membersOf assignments data idx
                   in case generateClusterLabel S clusterPlayers (cfg_metrics config) bounds of
                        Inl e \<Rightarrow> Inl e
                      | Inr l \<Rightarrow>
                          Inr \<lparr>clusterId = idx, centroid = c, clusterPlayers = clusterPlayers,
                               clusterSize = length clusterPlayers, label = l\<rparr>)
                (zip [0..<length centroids] centroids)
        in (rounds,
            case results of
              Inl e \<Rightarrow> Inl e
            | Inr rs \<Rightarrow>
                Inr (sort_desc_size clusterSize (filter (\<lambda>r. clusterSize r > 0) rs))))"

text \<open>The centroids and the assignments with which \<open>kMeansClustering\<close> enters the loop.\<close>

definition kMeansInit ::
  "(num list list \<Rightarrow> num list list) \<Rightarrow> (string \<Rightarrow> num) \<Rightarrow> PlayerData list
     \<Rightarrow> ClusterConfig \<Rightarrow> num list list \<times> nat list" where
  "kMeansInit shuffle S data config =
     (slice0 (cfg_k config) (shuffle (kMeansVectors S data (cfg_metrics config))),
      replicate (length (kMeansVectors S data (cfg_metrics config))) 0)"

definition kMeansClustering ::
  "(num list list \<Rightarrow> num list list) \<Rightarrow> (string \<Rightarrow> num) \<Rightarrow> PlayerData list
     \<Rightarrow> ClusterConfig \<Rightarrow> error + ClusterResult list" where
  "kMeansClustering shuffle S data config = snd (kMeansRun shuffle S data config)"

definition rowA :: PlayerData where
  "rowA = [(''Player'', Str ''A''), (''Team'', Str ''X''), (''Minutes played'', Num (F 900)),
           (''xG'', Num (F 0))]"

definition rowB :: PlayerData where
  "rowB = [(''Player'', Str ''B''), (''Team'', Str ''Y''), (''Minutes played'', Num (F 900)),
           (''xG'', Num (F 1))]"

definition twoClusters :: "int \<Rightarrow> ClusterConfig" where
  "twoClusters cap = \<lparr>cfg_k = 2, cfg_maxIterations = cap, cfg_metrics = [''xG'']\<rparr>"

section \<open>Similarity service\<close>

definition EXCLUDED_METRIC_KEYS :: "string list" where
  "EXCLUDED_METRIC_KEYS =
     [''Player'', ''Team'', ''Team within selected timeframe'', ''Position'',
      ''Birth country'', ''Passport country'', ''Foot'', ''On loan'', ''League'',
      ''Contract expires'', ''Main Position'', ''Index'']"

definition PROFILE_KEYS :: "string list" where
  "PROFILE_KEYS = [''Age'', ''Market value'', ''Height'', ''Weight'', ''Matches played'', ''Minutes played'']"

definition extractNumericMetricKeys :: "PlayerData list \<Rightarrow> string list" where
  \<comment> \<open>the keys of the first row whose cell is a number, but the excluded and profile keys; sorted\<close>
  "extractNumericMetricKeys data =
     (case data of
        [] \<Rightarrow> []
      | sample # _ \<Rightarrow>
          sort (filter (\<lambda>key. (case field sample key of Some (Num _) \<Rightarrow> True | _ \<Rightarrow> False)
                              \<and> key \<notin> set EXCLUDED_METRIC_KEYS \<and> key \<notin> set PROFILE_KEYS)
                  (remdups (map fst sample))))"

definition METRIC_CATEGORY_WEIGHTS :: "(string \<times> real) list" where
  \<comment> \<open>as the source writes them; the number of a weight \<open>w\<close> is \<open>fl w\<close>\<close>
  "METRIC_CATEGORY_WEIGHTS =
     [(''attacking'', 1.0), (''defensive'', 1.0), (''passing'', 0.8), (''physical'', 0.6),
      (''possession'', 0.9)]"

definition METRIC_CATEGORIES :: "(string \<times> string) list" where
  "METRIC_CATEGORIES =
    [(''xG'', ''attacking''),
     (''xG per 90'', ''attacking''),
     (''Goals'', ''attacking''),
     (''Goals per 90'', ''attacking''),
     (''Non-penalty goals per 90'', ''attacking''),
     (''Shots per 90'', ''attacking''),
     (''Shots on target, %'', ''attacking''),
     (''Touches in box per 90'', ''attacking''),
     (''xA'', ''attacking''),
     (''xA per 90'', ''attacking''),
     (''Assists'', ''attacking''),
     (''Key passes per 90'', ''attacking''),
     (''Shot assists per 90'', ''attacking''),
     (''Deep completions per 90'', ''attacking''),
     (''Successful defensive actions per 90'', ''defensive''),
     (''Defensive duels won, %'', ''defensive''),
     (''Aerial duels won, %'', ''defensive''),
     (''PAdj Interceptions'', ''defensive''),
     (''PAdj Sliding tackles'', ''defensive''),
     (''Shots blocked per 90'', ''defensive''),
     (''Passes per 90'', ''passing''),
     (''Accurate passes, %'', ''passing''),
     (''Progressive passes per 90'', ''passing''),
     (''Passes to final third per 90'', ''passing''),
     (''Accurate long passes, %'', ''passing''),
     (''Accurate crosses, %'', ''passing''),
     (''Dribbles per 90'', ''possession''),
     (''Successful dribbles, %'', ''possession''),
     (''Progressive runs per 90'', ''possession''),
     (''Offensive duels won, %'', ''possession''),
     (''Duels won, %'', ''physical''),
     (''Duels per 90'', ''physical'')]"

text \<open>
  \<open>p.Position?.split(',').map(s => s.trim()) || []\<close> is the empty list for a missing cell
  and throws a \<open>TypeError\<close> for a cell that is a number (\<open>split\<close> is not a function of a
  number).
\<close>

definition positionList :: "PlayerData \<Rightarrow> error + string list" where
  "positionList p =
     (case field p ''Position'' of
        None \<Rightarrow> Inr []
      | Some (Str s) \<Rightarrow> Inr (map trim (split_on CHR '','' s))
      | Some (Num r) \<Rightarrow> Inl TypeError)"

datatype Algorithm = Euclidean | Cosine | Manhattan | Weighted

text \<open>
  The options object: every field is optional, and the destructuring gives the defaults
  \<open>maxResults = 10\<close>, \<open>samePositionOnly = false\<close>, \<open>excludeSameTeam = false\<close>,
  \<open>minMinutes = 450\<close>, \<open>customWeights = {}\<close>, \<open>algorithm = 'euclidean'\<close>.
  \<open>maxResults\<close> is taken to be an integer. The numbers of the options are read through
  \<open>dbl\<close>, as the cells are.
\<close>

record SimilarityOptions =
  maxResults :: "int option"
  samePositionOnly :: "bool option"
  excludeSameTeam :: "bool option"
  minMinutes :: "num option"
  customWeights :: "(string \<rightharpoonup> num) option"
  algorithm :: "Algorithm option"

definition or_default :: "'a \<Rightarrow> 'a option \<Rightarrow> 'a" where
  "or_default d x = (case x of None \<Rightarrow> d | Some v \<Rightarrow> v)"

record SimilarityResult =
  sim_player :: PlayerData
  sim_score :: num
  sim_distance :: num
  matchedMetrics :: nat
  sim_breakdown :: "(string \<times> num) list"

definition keepCandidate ::
  "(string \<Rightarrow> num) \<Rightarrow> PlayerData \<Rightarrow> bool \<Rightarrow> bool \<Rightarrow> num \<Rightarrow> PlayerData \<Rightarrow> error + bool" where
  \<comment> \<open>the callback of \<open>candidates.filter\<close>\<close>
  "keepCandidate S referencePlayer samePos exclTeam minMin p =
     (if strict_eq (field p ''Player'') (field referencePlayer ''Player'')
         \<and> strict_eq (field p ''Team'') (field referencePlayer ''Team'') then Inr False
      else
        case (if samePos then
                (case positionList referencePlayer of
                   Inl e \<Rightarrow> Inl e
                 | Inr refPositions \<Rightarrow>
                     (case positionList p of
                        Inl e \<Rightarrow> Inl e
                      | Inr candPositions \<Rightarrow>
                          Inr (\<not> list_ex (\<lambda>rp. rp \<in> set candPositions) refPositions)))
              else Inr False) of
          Inl e \<Rightarrow> Inl e
        | Inr True \<Rightarrow> Inr False
        | Inr False \<Rightarrow>
            if exclTeam \<and> strict_eq (field p ''Team'') (field referencePlayer ''Team'') then Inr False
            else if flt (num_or_0 S p ''Minutes played'') (dbl minMin) then Inr False
            else Inr True)"

fun filter_throwing :: "('a \<Rightarrow> error + bool) \<Rightarrow> 'a list \<Rightarrow> error + 'a list" where
  "filter_throwing f [] = Inr []"
| "filter_throwing f (x # xs) =
     (case f x of
        Inl e \<Rightarrow> Inl e
      | Inr b \<Rightarrow>
          (case filter_throwing f xs of
             Inl e \<Rightarrow> Inl e
           | Inr ys \<Rightarrow> Inr (if b then x # ys else ys)))"

definition euclideanDistancePlayers ::
  "(string \<Rightarrow> num) \<Rightarrow> PlayerData \<Rightarrow> PlayerData \<Rightarrow> string list \<Rightarrow> (string \<Rightarrow> MetricBounds) \<Rightarrow> num" where
  \<comment> \<open>\<open>euclideanDistance\<close> of the similarity service\<close>
  "euclideanDistancePlayers S playerA playerB metricKeys bounds =
     fsqrt (fold (\<lambda>key sumSquaredDiff.
                    let valA = normalizeValue (num_or_0 S playerA key) (bounds key);
                        valB = normalizeValue (num_or_0 S playerB key) (bounds key)
                    in fadd sumSquaredDiff (fpow2 (fsub valA valB)))
              metricKeys (F 0))"

definition weight_or_1 :: "(string \<rightharpoonup> num) \<Rightarrow> string \<Rightarrow> num" where
  \<comment> \<open>\<open>weights[key] || 1\<close>\<close>
  "weight_or_1 weights key =
     (case weights key of None \<Rightarrow> F 1 | Some w \<Rightarrow> if truthy (dbl w) then dbl w else F 1)"

definition categoryWeight :: "(string \<rightharpoonup> num) \<Rightarrow> string \<Rightarrow> num" where
  \<comment> \<open>the weight that \<open>weightedEuclideanDistance\<close> gives a key\<close>
  "categoryWeight cw key =
     (let weight = weight_or_1 cw key;
          category = map_of METRIC_CATEGORIES key
      in case category of
           Some c \<Rightarrow>
             if c \<noteq> [] \<and> (case cw key of None \<Rightarrow> True | Some w \<Rightarrow> \<not> truthy (dbl w))
             then weight_or_1 (map_option F \<circ> map_of METRIC_CATEGORY_WEIGHTS) c
             else weight
         | None \<Rightarrow> weight)"

definition weightedEuclideanDistance ::
  "(string \<Rightarrow> num) \<Rightarrow> PlayerData \<Rightarrow> PlayerData \<Rightarrow> string list \<Rightarrow> (string \<Rightarrow> MetricBounds)
     \<Rightarrow> (string \<rightharpoonup> num) \<Rightarrow> num \<times> (string \<times> num) list" where
  "weightedEuclideanDistance S playerA playerB metricKeys bounds cw =
     (let (sumWeightedSquaredDiff, totalWeight, bd) =
            fold (\<lambda>key (sumW, totalW, bd).
                    let valA = normalizeValue (num_or_0 S playerA key) (bounds key);
                        valB = normalizeValue (num_or_0 S playerB key) (bounds key);
                        weight = categoryWeight cw key;
                        diff = fmul (fpow2 (fsub valA valB)) weight
                    in (fadd sumW diff, fadd totalW weight,
                        bd @ [(key, toFixed 3 (fsqrt (fpow2 (fsub valA valB))))]))
              metricKeys (F 0, F 0, [])
      in (fsqrt (fdiv sumWeightedSquaredDiff (if truthy totalWeight then totalWeight else F 1)), bd))"

definition manhattanDistance ::
  "(string \<Rightarrow> num) \<Rightarrow> PlayerData \<Rightarrow> PlayerData \<Rightarrow> string list \<Rightarrow> (string \<Rightarrow> MetricBounds)
     \<Rightarrow> (string \<rightharpoonup> num) \<Rightarrow> num" where
  "manhattanDistance S playerA playerB metricKeys bounds weights =
     (let totalDiff =
            fold (\<lambda>key totalDiff.
                    let valA = normalizeValue (num_or_0 S playerA key) (bounds key);
                        valB = normalizeValue (num_or_0 S playerB key) (bounds key);
                        weight = weight_or_1 weights key
                    in fadd totalDiff (fmul (fabs (fsub valA valB)) weight))
              metricKeys (F 0)
      in fdiv totalDiff (F (real (length metricKeys))))"

definition cosineSimilarity ::
  "(string \<Rightarrow> num) \<Rightarrow> PlayerData \<Rightarrow> PlayerData \<Rightarrow> string list \<Rightarrow> (string \<Rightarrow> MetricBounds) \<Rightarrow> num" where
  "cosineSimilarity S playerA playerB metricKeys bounds =
     (let (dotProduct, normA, normB) =
            fold (\<lambda>key (dotProduct, normA, normB).
                    let valA = normalizeValue (num_or_0 S playerA key) (bounds key);
                        valB = normalizeValue (num_or_0 S playerB key) (bounds key)
                    in (fadd dotProduct (fmul valA valB), fadd normA (fmul valA valA),
                        fadd normB (fmul valB valB)))
              metricKeys (F 0, F 0, F 0);
          denominator = fmul (fsqrt normA) (fsqrt normB)
      in if feq denominator (F 0) then F 1 else fsub (F 1) (fdiv dotProduct denominator))"

definition similarityScore :: "num \<Rightarrow> nat \<Rightarrow> num" where
  \<comment> \<open>\<open>Math.max(0, Math.round(100 * (1 - distance / (Math.sqrt(n) * 0.6))))\<close>\<close>
  "similarityScore distance n =
     Math_max2 (F 0)
       (Math_round (fmul (F 100)
          (fsub (F 1) (fdiv distance (fmul (fsqrt (F (real n))) (fl 0.6))))))"

definition distanceByAlgorithm ::
  "(string \<Rightarrow> num) \<Rightarrow> Algorithm \<Rightarrow> PlayerData \<Rightarrow> PlayerData \<Rightarrow> string list
     \<Rightarrow> (string \<Rightarrow> MetricBounds) \<Rightarrow> (string \<rightharpoonup> num) \<Rightarrow> num \<times> (string \<times> num) list" where
  \<comment> \<open>the \<open>switch (algorithm)\<close>: the distance and the breakdown (\<open>{}\<close> but for \<open>'weighted'\<close>)\<close>
  "distanceByAlgorithm S alg referencePlayer candidate metricKeys bounds cw =
     (case alg of
        Cosine \<Rightarrow> (cosineSimilarity S referencePlayer candidate metricKeys bounds, [])
      | Manhattan \<Rightarrow> (manhattanDistance S referencePlayer candidate metricKeys bounds cw, [])
      | Weighted \<Rightarrow> weightedEuclideanDistance S referencePlayer candidate metricKeys bounds cw
      | Euclidean \<Rightarrow> (euclideanDistancePlayers S referencePlayer candidate metricKeys bounds, []))"

definition findSimilarPlayers ::
  "(SimilarityResult list \<Rightarrow> SimilarityResult list) \<Rightarrow> (string \<Rightarrow> num) \<Rightarrow> PlayerData
     \<Rightarrow> PlayerData list \<Rightarrow> SimilarityOptions \<Rightarrow> error + SimilarityResult list" where
  "findSimilarPlayers engine S referencePlayer candidates options =
     (let maxRes = or_default 10 (maxResults options);
          samePos = or_default False (samePositionOnly options);
          exclTeam = or_default False (excludeSameTeam options);
          minMin = or_default (F 450) (minMinutes options);
          cw = or_default Map.empty (customWeights options);
          alg = or_default Euclidean (algorithm options)
      in case filter_throwing (keepCandidate S referencePlayer samePos exclTeam minMin) candidates of
           Inl e \<Rightarrow> Inl e
         | Inr filteredCandidates \<Rightarrow>
             let metricKeys = extractNumericMetricKeys candidates;
                 bounds = (\<lambda>key. calculateMetricBounds S candidates key);
                 results =
                   map (\<lambda>candidate.
                          let (distance, bd) =
                                distanceByAlgorithm S alg referencePlayer candidate metricKeys bounds cw
                          in \<lparr>sim_player = candidate,
                              sim_score = similarityScore distance (length metricKeys),
                              sim_distance = distance,
                              matchedMetrics = length metricKeys,
                              sim_breakdown = bd\<rparr>)
                     filteredCandidates
             in Inr (slice0 maxRes (sort_desc_by engine sim_score results)))"

definition defaultOptions :: SimilarityOptions where
  "defaultOptions =
     \<lparr>maxResults = None, samePositionOnly = None, excludeSameTeam = None, minMinutes = None,
      customWeights = None, algorithm = None\<rparr>"

definition negativeWeight :: SimilarityOptions where
  "negativeWeight =
     \<lparr>maxResults = None, samePositionOnly = None, excludeSameTeam = None, minMinutes = None,
      customWeights = Some [''xG'' \<mapsto> F (- 1)], algorithm = Some Manhattan\<rparr>"

definition profileOnly :: PlayerData where
  "profileOnly = [(''Player'', Str ''D''), (''Team'', Str ''Z''), (''Minutes played'', Num (F 900))]"

section \<open>Properties of the rounding\<close>

lemma round_even_of_int: "round_even (of_int n) = n"
  by (simp add: round_even_def)

lemma round_even_ge_floor: "\<lfloor>y\<rfloor> \<le> round_even y"
  by (simp add: round_even_def Let_def)

lemma round_even_le_floor1: "round_even y \<le> \<lfloor>y\<rfloor> + 1"
  by (simp add: round_even_def Let_def)

lemma round_even_mono: "x \<le> y \<Longrightarrow> round_even x \<le> round_even y"
proof -
  assume le: "x \<le> y"
  have fl: "\<lfloor>x\<rfloor> \<le> \<lfloor>y\<rfloor>" using le by (rule floor_mono)
  show ?thesis
  proof (cases "\<lfloor>x\<rfloor> = \<lfloor>y\<rfloor>")
    case True
    then show ?thesis using le unfolding round_even_def Let_def by auto
  next
    case False
    hence "\<lfloor>x\<rfloor> + 1 \<le> \<lfloor>y\<rfloor>" using fl by simp
    moreover have "round_even x \<le> \<lfloor>x\<rfloor> + 1" by (rule round_even_le_floor1)
    moreover have "\<lfloor>y\<rfloor> \<le> round_even y" by (rule round_even_ge_floor)
    ultimately show ?thesis by linarith
  qed
qed

lemma round_even_minus: "round_even (- y) = - round_even y"
proof (cases "y \<in> \<int>")
  case True
  then obtain n where "y = of_int n" by (auto elim: Ints_cases)
  then show ?thesis using round_even_of_int [of "- n"] round_even_of_int [of n] by simp
next
  case False
  have ne: "y \<noteq> of_int \<lfloor>y\<rfloor>" using False by (metis Ints_of_int)
  hence f: "\<lfloor>- y\<rfloor> = - \<lfloor>y\<rfloor> - 1"
    by (simp add: floor_minus ceiling_altdef)
  have d: "- y - of_int (- \<lfloor>y\<rfloor> - 1) = 1 - (y - of_int \<lfloor>y\<rfloor>)" by simp
  show ?thesis
    using ne unfolding round_even_def Let_def f d by auto
qed

lemma round_even_abs_le:
  assumes "\<bar>y\<bar> \<le> of_int n"
  shows "\<bar>round_even y\<bar> \<le> n"
proof -
  have "round_even y \<le> round_even (of_int n)" using assms by (intro round_even_mono) linarith
  moreover have "round_even (of_int (- n)) \<le> round_even y" using assms by (intro round_even_mono) simp
  ultimately have "round_even y \<le> n" and "- n \<le> round_even y" by (simp_all only: round_even_of_int)
  thus ?thesis by linarith
qed

lemma round_even_error: "\<bar>of_int (round_even y) - y\<bar> \<le> 1 / 2"
  unfolding round_even_def Let_def by (auto simp: abs_if) linarith+

lemma floor_log2_bounds:
  assumes "0 < x"
  shows "2 powi \<lfloor>log 2 x\<rfloor> \<le> x" and "x < 2 powi (\<lfloor>log 2 x\<rfloor> + 1)"
  using floor_log_eq_powr_iff [of x 2 "\<lfloor>log 2 x\<rfloor>"] assms
  by (simp_all add: powr_real_of_int' del: of_int_add)

lemma floor_log2_eq:
  assumes "2 powi k \<le> x" and "x < 2 powi (k + 1)"
  shows "\<lfloor>log 2 x\<rfloor> = k"
proof -
  have "(0::real) < 2 powi k" by simp
  hence "0 < x" using assms(1) by linarith
  thus ?thesis
    using floor_log_eq_powr_iff [of x 2 k] assms
    by (simp add: powr_real_of_int' del: of_int_add)
qed

lemma ulp_exp_ge: "- 1074 \<le> ulp_exp x"
  by (simp add: ulp_exp_def)

lemma ulp_exp_minus: "ulp_exp (- x) = ulp_exp x"
  by (simp add: ulp_exp_def)

lemma ulp_exp_upper:
  assumes "x \<noteq> 0"
  shows "\<bar>x\<bar> < 2 powi (ulp_exp x + 53)"
proof -
  have "\<bar>x\<bar> < 2 powi (\<lfloor>log 2 \<bar>x\<bar>\<rfloor> + 1)"
    using floor_log2_bounds(2) [of "\<bar>x\<bar>"] assms by simp
  also have "\<dots> \<le> 2 powi (ulp_exp x + 53)"
    by (rule power_int_increasing) (simp_all add: ulp_exp_def)
  finally show ?thesis .
qed

lemma ulp_exp_lower:
  assumes "x \<noteq> 0" and "- 1074 < ulp_exp x"
  shows "2 powi (ulp_exp x + 52) \<le> \<bar>x\<bar>"
proof -
  have "ulp_exp x + 52 = \<lfloor>log 2 \<bar>x\<bar>\<rfloor>" using assms(2) by (simp add: ulp_exp_def max_def split: if_splits)
  thus ?thesis using floor_log2_bounds(1) [of "\<bar>x\<bar>"] assms(1) by simp
qed

lemma ulp_exp_eq:
  assumes "2 powi (e + 52) \<le> \<bar>x\<bar>" and "\<bar>x\<bar> < 2 powi (e + 53)" and "- 1074 \<le> e"
  shows "ulp_exp x = e"
proof -
  have "\<lfloor>log 2 \<bar>x\<bar>\<rfloor> = e + 52"
    using floor_log2_eq [of "e + 52" "\<bar>x\<bar>"] assms by (simp add: add.commute add.left_commute)
  thus ?thesis using assms(3) by (simp add: ulp_exp_def)
qed

lemma ulp_exp_mono:
  assumes "x \<noteq> 0" and "\<bar>x\<bar> \<le> \<bar>y\<bar>"
  shows "ulp_exp x \<le> ulp_exp y"
proof -
  have "log 2 \<bar>x\<bar> \<le> log 2 \<bar>y\<bar>" using assms by simp
  hence "\<lfloor>log 2 \<bar>x\<bar>\<rfloor> \<le> \<lfloor>log 2 \<bar>y\<bar>\<rfloor>" by (rule floor_mono)
  thus ?thesis by (simp add: ulp_exp_def)
qed

lemma rd_0: "rd 0 = 0"
  by (simp add: rd_def)

lemma rd_minus: "rd (- x) = - rd x"
  by (simp add: rd_def ulp_exp_minus round_even_minus)

lemma rd_nonneg: "0 \<le> x \<Longrightarrow> 0 \<le> rd x"
proof -
  assume x: "0 \<le> x"
  have "0 \<le> x / 2 powi ulp_exp x" using x by simp
  hence "round_even 0 \<le> round_even (x / 2 powi ulp_exp x)" by (rule round_even_mono)
  hence "0 \<le> round_even (x / 2 powi ulp_exp x)" using round_even_of_int [of 0] by simp
  thus ?thesis by (simp add: rd_def)
qed

lemma rd_le_binade:
  assumes "0 < x"
  shows "rd x \<le> 2 powi (ulp_exp x + 53)"
proof -
  let ?e = "ulp_exp x"
  have "x < 2 powi (?e + 53)" using ulp_exp_upper [of x] assms by simp
  hence "x / 2 powi ?e \<le> 2 powi (?e + 53) / 2 powi ?e" by (simp add: divide_right_mono)
  also have "\<dots> = of_int (2 ^ 53)" by (simp add: power_int_add)
  finally have "round_even (x / 2 powi ?e) \<le> round_even (of_int (2 ^ 53))" by (rule round_even_mono)
  hence "round_even (x / 2 powi ?e) \<le> 2 ^ 53" by (simp only: round_even_of_int)
  hence "real_of_int (round_even (x / 2 powi ?e)) \<le> real_of_int (2 ^ 53)" by (simp only: of_int_le_iff)
  hence "real_of_int (round_even (x / 2 powi ?e)) \<le> 2 ^ 53" by simp
  hence "real_of_int (round_even (x / 2 powi ?e)) * 2 powi ?e \<le> 2 ^ 53 * 2 powi ?e"
    by (simp add: mult_right_mono)
  also have "\<dots> = 2 powi (?e + 53)" by (simp add: power_int_add)
  finally show ?thesis using assms by (simp add: rd_def)
qed

lemma rd_ge_binade:
  assumes "0 < x" and "- 1074 < ulp_exp x"
  shows "2 powi (ulp_exp x + 52) \<le> rd x"
proof -
  let ?e = "ulp_exp x"
  have "2 powi (?e + 52) \<le> x" using ulp_exp_lower [of x] assms by simp
  hence "2 powi (?e + 52) / 2 powi ?e \<le> x / 2 powi ?e" by (simp add: divide_right_mono)
  moreover have "2 powi (?e + 52) / 2 powi ?e = real_of_int (2 ^ 52)" by (simp add: power_int_add)
  ultimately have "round_even (of_int (2 ^ 52)) \<le> round_even (x / 2 powi ?e)"
    by (intro round_even_mono) simp
  hence "2 ^ 52 \<le> round_even (x / 2 powi ?e)" by (simp only: round_even_of_int)
  hence "real_of_int (2 ^ 52) \<le> real_of_int (round_even (x / 2 powi ?e))" by (simp only: of_int_le_iff)
  hence "2 ^ 52 \<le> real_of_int (round_even (x / 2 powi ?e))" by simp
  hence "2 ^ 52 * 2 powi ?e \<le> real_of_int (round_even (x / 2 powi ?e)) * 2 powi ?e"
    by (simp add: mult_right_mono)
  moreover have "2 ^ 52 * 2 powi ?e = (2::real) powi (?e + 52)" by (simp add: power_int_add)
  moreover have "rd x = real_of_int (round_even (x / 2 powi ?e)) * 2 powi ?e"
    using assms by (simp add: rd_def)
  ultimately show ?thesis by linarith
qed

lemma rd_mono_pos:
  assumes "0 < x" and "x \<le> y"
  shows "rd x \<le> rd y"
proof (cases "ulp_exp x = ulp_exp y")
  case True
  have "x / 2 powi ulp_exp y \<le> y / 2 powi ulp_exp y" using assms by (simp add: divide_right_mono)
  hence "round_even (x / 2 powi ulp_exp y) \<le> round_even (y / 2 powi ulp_exp y)"
    by (rule round_even_mono)
  hence "real_of_int (round_even (x / 2 powi ulp_exp y)) * 2 powi ulp_exp y
           \<le> real_of_int (round_even (y / 2 powi ulp_exp y)) * 2 powi ulp_exp y"
    by (simp add: mult_right_mono)
  thus ?thesis using assms True by (simp add: rd_def)
next
  case False
  have "ulp_exp x \<le> ulp_exp y" using ulp_exp_mono [of x y] assms by simp
  hence lt: "ulp_exp x < ulp_exp y" using False by simp
  have "rd x \<le> 2 powi (ulp_exp x + 53)" using assms by (intro rd_le_binade)
  also have "\<dots> \<le> 2 powi (ulp_exp y + 52)"
    using lt by (intro power_int_increasing) simp_all
  also have "\<dots> \<le> rd y"
    using assms lt ulp_exp_ge [of x] by (intro rd_ge_binade) simp_all
  finally show ?thesis .
qed

lemma rd_mono: "x \<le> y \<Longrightarrow> rd x \<le> rd y"
proof -
  assume le: "x \<le> y"
  consider "0 < x" | "x \<le> 0" "0 \<le> y" | "y < 0" by linarith
  thus ?thesis
  proof cases
    case 1
    thus ?thesis using le by (rule rd_mono_pos)
  next
    case 2
    have "0 \<le> rd (- x)" using 2 by (intro rd_nonneg) simp
    hence "rd x \<le> 0" by (simp add: rd_minus)
    moreover have "0 \<le> rd y" using 2 by (intro rd_nonneg)
    ultimately show ?thesis by linarith
  next
    case 3
    have "rd (- y) \<le> rd (- x)" using 3 le by (intro rd_mono_pos) simp_all
    thus ?thesis by (simp add: rd_minus)
  qed
qed

lemma rd_integral_quotient:
  assumes "x / 2 powi ulp_exp x = of_int n"
  shows "rd x = x"
proof (cases "x = 0")
  case True
  thus ?thesis by (simp add: rd_0)
next
  case False
  have "rd x = of_int n * 2 powi ulp_exp x"
    using False assms by (simp add: rd_def round_even_of_int)
  also have "\<dots> = x" using assms [symmetric] by simp
  finally show ?thesis .
qed

text \<open>A number \<open>m * 2 ^ j\<close> with \<open>\<bar>m\<bar> \<le> 2 ^ 53\<close> and \<open>j \<ge> -1074\<close> is not changed by the rounding.\<close>

lemma rd_repr:
  assumes m: "\<bar>m\<bar> \<le> 2 ^ 53" and j: "- 1074 \<le> j"
  shows "rd (of_int m * 2 powi j) = of_int m * 2 powi j"
proof (cases "m = 0")
  case True
  thus ?thesis by (simp add: rd_0)
next
  case False
  let ?x = "real_of_int m * 2 powi j"
  let ?e = "ulp_exp ?x"
  have x0: "?x \<noteq> 0" using False by simp
  have absx: "\<bar>?x\<bar> = real_of_int \<bar>m\<bar> * 2 powi j" by (simp add: abs_mult)
  show ?thesis
  proof (cases "?e \<le> j")
    case True
    have "?x / 2 powi ?e = of_int m * 2 powi (j - ?e)" by (simp add: power_int_diff)
    also have "\<dots> = of_int m * 2 ^ nat (j - ?e)" using True by (simp add: power_int_def)
    also have "\<dots> = of_int (m * 2 ^ nat (j - ?e))" by simp
    finally show ?thesis by (rule rd_integral_quotient)
  next
    case gt: False
    hence e: "- 1074 < ?e" using j by simp
    have lo: "2 powi (?e + 52) \<le> \<bar>?x\<bar>" using x0 e by (rule ulp_exp_lower)
    have "real_of_int \<bar>m\<bar> \<le> 2 ^ 53" using m by (metis of_int_le_iff of_int_numeral of_int_power)
    hence hi: "\<bar>?x\<bar> \<le> 2 ^ 53 * 2 powi j" unfolding absx by (simp add: mult_right_mono)
    have hi': "(2::real) ^ 53 * 2 powi j = 2 powi (j + 53)" by (simp add: power_int_add)
    have "(2::real) powi (?e + 52) \<le> 2 powi (j + 53)" using lo hi hi' by linarith
    have "?e + 52 \<le> j + 53"
    proof (rule ccontr)
      assume "\<not> ?e + 52 \<le> j + 53"
      hence "j + 53 < ?e + 52" by simp
      hence "(2::real) powi (j + 53) < 2 powi (?e + 52)"
        by (intro power_int_strict_increasing) simp_all
      thus False using \<open>(2::real) powi (?e + 52) \<le> 2 powi (j + 53)\<close> by linarith
    qed
    hence ej: "?e = j + 1" using gt by simp
    have "2 powi (j + 53) \<le> \<bar>?x\<bar>" using lo ej by (simp add: add.commute)
    hence "\<bar>?x\<bar> = 2 ^ 53 * 2 powi j" using hi hi' by linarith
    hence "real_of_int \<bar>m\<bar> = 2 ^ 53" unfolding absx by simp
    hence am: "\<bar>m\<bar> = 2 ^ 53" by (metis of_int_eq_iff of_int_numeral of_int_power)
    have "?x / 2 powi ?e = of_int m * 2 powi (j - ?e)" by (simp add: power_int_diff)
    also have "\<dots> = of_int m / 2" using ej by simp
    also have "\<dots> = of_int (m div 2)"
    proof -
      have "even m" using am by (cases "0 \<le> m") (simp_all add: abs_if split: if_splits, presburger+)
      thus ?thesis by (simp add: real_of_int_div)
    qed
    finally show ?thesis by (rule rd_integral_quotient)
  qed
qed

lemma rd_idem: "rd (rd x) = rd x"
proof (cases "x = 0")
  case True
  thus ?thesis by (simp add: rd_0)
next
  case False
  let ?e = "ulp_exp x"
  have "\<bar>x\<bar> < 2 powi (?e + 53)" using False by (rule ulp_exp_upper)
  hence "\<bar>x\<bar> / 2 powi ?e \<le> 2 powi (?e + 53) / 2 powi ?e" by (simp add: divide_right_mono)
  also have "\<dots> = of_int (2 ^ 53)" by (simp add: power_int_add)
  finally have "\<bar>x / 2 powi ?e\<bar> \<le> of_int (2 ^ 53)" by simp
  hence "\<bar>round_even (x / 2 powi ?e)\<bar> \<le> 2 ^ 53" by (rule round_even_abs_le)
  hence "rd (of_int (round_even (x / 2 powi ?e)) * 2 powi ?e)
           = of_int (round_even (x / 2 powi ?e)) * 2 powi ?e"
    using ulp_exp_ge [of x] by (rule rd_repr)
  thus ?thesis using False by (simp add: rd_def)
qed

text \<open>The rounding of a number whose binade is known, for the evaluation on concrete inputs.\<close>

lemma rd_eval:
  assumes "2 powi (e + 52) \<le> \<bar>x\<bar>" and "\<bar>x\<bar> < 2 powi (e + 53)" and "- 1074 \<le> e"
  shows "rd x = of_int (round_even (x / 2 powi e)) * 2 powi e"
proof -
  have "ulp_exp x = e" using assms by (rule ulp_exp_eq)
  moreover have "x \<noteq> 0"
  proof -
    have "(0::real) < 2 powi (e + 52)" by simp
    hence "0 < \<bar>x\<bar>" using assms(1) by linarith
    thus ?thesis by simp
  qed
  ultimately show ?thesis by (simp add: rd_def)
qed

lemma rd_error:
  assumes "x \<noteq> 0"
  shows "\<bar>rd x - x\<bar> \<le> 2 powi ulp_exp x / 2"
proof -
  let ?p = "(2::real) powi ulp_exp x"
  have p: "0 < ?p" by simp
  have "\<bar>rd x - x\<bar> = \<bar>(of_int (round_even (x / ?p)) - x / ?p) * ?p\<bar>"
    using assms p by (simp add: rd_def algebra_simps)
  also have "\<dots> = \<bar>of_int (round_even (x / ?p)) - x / ?p\<bar> * ?p"
    using p by (simp add: abs_mult)
  also have "\<dots> \<le> 1 / 2 * ?p"
    using p round_even_error [of "x / ?p"] by (intro mult_right_mono) simp_all
  finally show ?thesis by simp
qed

section \<open>Properties of the arithmetic\<close>

lemma fl_F: "\<bar>rd x\<bar> < 2 ^ 1024 \<Longrightarrow> fl x = F (rd x)"
  by (simp add: fl_def Let_def)

lemma fl_not_NaN: "fl x \<noteq> NaN"
  by (simp add: fl_def Let_def)

lemma fl_is_F: "fl x = F y \<Longrightarrow> y = rd x \<and> \<bar>y\<bar> < 2 ^ 1024"
  by (auto simp: fl_def Let_def split: if_splits)

lemma rd_abs_le:
  assumes "\<bar>x\<bar> \<le> of_int m * 2 powi j" and "\<bar>m\<bar> \<le> 2 ^ 53" and "- 1074 \<le> j"
  shows "\<bar>rd x\<bar> \<le> of_int m * 2 powi j"
proof -
  have "rd x \<le> rd (of_int m * 2 powi j)" using assms(1) by (intro rd_mono) linarith
  moreover have "rd (- (of_int m * 2 powi j)) \<le> rd x" using assms(1) by (intro rd_mono) linarith
  ultimately show ?thesis
    using rd_repr [OF assms(2,3)] by (simp add: rd_minus)
qed

lemma rd_abs_le_int:
  assumes "\<bar>x\<bar> \<le> of_int m" and "\<bar>m\<bar> \<le> 2 ^ 53"
  shows "\<bar>rd x\<bar> \<le> of_int m"
  using rd_abs_le [of x m 0] assms by simp

lemma fl_small:
  assumes "\<bar>x\<bar> \<le> 2 ^ 53"
  shows "fl x = F (rd x)"
proof -
  have "\<bar>rd x\<bar> \<le> of_int (2 ^ 53)" using assms by (intro rd_abs_le_int) simp_all
  hence "\<bar>rd x\<bar> < 2 ^ 1024" by simp
  thus ?thesis by (rule fl_F)
qed

lemma rd_of_int: "\<bar>n\<bar> \<le> 2 ^ 53 \<Longrightarrow> rd (of_int n) = of_int n"
  using rd_repr [of n 0] by simp

lemma rd_of_nat: "n \<le> 2 ^ 53 \<Longrightarrow> rd (real n) = real n"
  using rd_of_int [of "int n"] by simp

lemma rd_half_nat: "n \<le> 2 ^ 53 \<Longrightarrow> rd (real n / 2) = real n / 2"
  using rd_repr [of "int n" "- 1"] by simp

lemma fl_of_int: "\<bar>n\<bar> \<le> 2 ^ 53 \<Longrightarrow> fl (of_int n) = F (of_int n)"
proof -
  assume n: "\<bar>n\<bar> \<le> 2 ^ 53"
  hence "\<bar>real_of_int n\<bar> \<le> 2 ^ 53" by (metis of_int_abs of_int_le_iff of_int_numeral of_int_power)
  thus ?thesis using n by (simp add: fl_small rd_of_int)
qed

lemma fl_of_nat: "n \<le> 2 ^ 53 \<Longrightarrow> fl (real n) = F (real n)"
  using fl_of_int [of "int n"] by simp

lemma fl_0: "fl 0 = F 0"
  using fl_of_int [of 0] by simp

lemma fl_1: "fl 1 = F 1"
  using fl_of_int [of 1] by simp

lemma fl_numeral: "(numeral k :: int) \<le> 2 ^ 53 \<Longrightarrow> fl (numeral k) = F (numeral k)"
  using fl_of_int [of "numeral k"] by simp

lemma fl_neg_numeral: "(numeral k :: int) \<le> 2 ^ 53 \<Longrightarrow> fl (- numeral k) = F (- numeral k)"
  using fl_of_int [of "- numeral k"] by simp

lemma fl_neg_1: "fl (- 1) = F (- 1)"
  using fl_of_int [of "- 1"] by simp

lemmas fl_simps = fl_0 fl_1 fl_neg_1 fl_numeral fl_neg_numeral

text \<open>The result of an operation whose exact value has a known binade.\<close>

lemma fl_eval:
  assumes "2 powi (e + 52) \<le> \<bar>x\<bar>" and "\<bar>x\<bar> < 2 powi (e + 53)" and "- 1074 \<le> e" and "e \<le> 970"
  shows "fl x = F (of_int (round_even (x / 2 powi e)) * 2 powi e)"
proof -
  have r: "rd x = of_int (round_even (x / 2 powi e)) * 2 powi e"
    using assms(1-3) by (rule rd_eval)
  have "\<bar>x\<bar> \<le> of_int 1 * 2 powi (e + 53)" using assms(2) by simp
  hence "\<bar>rd x\<bar> \<le> of_int 1 * 2 powi (e + 53)"
    using assms(3) by (intro rd_abs_le) simp_all
  also have "\<dots> = 2 powi (e + 53)" by simp
  also have "\<dots> \<le> 2 powi 1023" using assms(4) by (intro power_int_increasing) simp_all
  also have "\<dots> < (2::real) powi 1024" by (intro power_int_strict_increasing) simp_all
  also have "\<dots> = (2::real) ^ 1024" by (simp only: power_int_numeral)
  finally have "fl x = F (rd x)" by (rule fl_F)
  thus ?thesis by (simp only: r)
qed

text \<open>
  A number read from a cell is a double, and the result of every operation is: \<open>rd\<close>
  leaves it unchanged and it is below \<open>2 ^ 1024\<close> in magnitude.
\<close>

lemma dbl_is_F: "dbl v = F y \<Longrightarrow> rd y = y \<and> \<bar>y\<bar> < 2 ^ 1024"
  by (cases v) (auto dest!: fl_is_F simp: rd_idem)

lemma Number_of_is_F: "Number_of S c = F y \<Longrightarrow> rd y = y \<and> \<bar>y\<bar> < 2 ^ 1024"
  by (cases "(S, c)" rule: Number_of.cases) (auto dest: dbl_is_F)

lemma fl_double: "rd y = y \<Longrightarrow> \<bar>y\<bar> < 2 ^ 1024 \<Longrightarrow> fl y = F y"
  by (simp add: fl_def Let_def)

lemma fadd_cases:
  obtains x where "fadd a b = fl x" | "fadd a b = PInf" | "fadd a b = NInf" | "fadd a b = NaN"
  by (cases "(a, b)" rule: fadd.cases) auto

lemma fdiv_fl_1: "fdiv (fl x) (F 1) = fl x"
proof (cases "fl x")
  case (F y)
  from fl_is_F [OF F] have y: "y = rd x" and b: "\<bar>y\<bar> < 2 ^ 1024" by blast+
  have "rd y = y" unfolding y by (rule rd_idem)
  hence "fl y = F y" using b by (rule fl_double)
  thus ?thesis using F by simp
qed (simp_all add: fl_not_NaN)

lemma fdiv_fadd_1: "fdiv (fadd a b) (F 1) = fadd a b"
  by (rule fadd_cases [of a b]) (simp_all add: fdiv_fl_1)

lemma fsqrt_positive: "truthy (fsqrt a) \<Longrightarrow> flt (F 0) (fsqrt a)"
proof (cases a)
  case (F x)
  assume t: "truthy (fsqrt a)"
  hence x: "0 \<le> x" using F by (auto simp: truthy_def split: if_splits)
  have r: "0 \<le> rd (sqrt x)" using x by (intro rd_nonneg) simp
  show ?thesis using t F x r by (auto simp: truthy_def fl_def Let_def)
qed (simp_all add: truthy_def)

lemma js_sum_zeros: "(\<forall>x \<in> set xs. x = F 0) \<Longrightarrow> js_sum xs = F 0"
proof -
  have "(\<forall>x \<in> set xs. x = F 0) \<Longrightarrow> fold (\<lambda>b a. fadd a b) xs (F 0) = F 0"
    by (induction xs) (simp_all add: fl_0)
  thus "(\<forall>x \<in> set xs. x = F 0) \<Longrightarrow> js_sum xs = F 0" by (simp add: js_sum_def)
qed

lemma ulp_exp_le:
  assumes "x \<noteq> 0" and "\<bar>x\<bar> < 2 powi k" and "- 1021 \<le> k"
  shows "ulp_exp x \<le> k - 53"
proof -
  have "2 powi \<lfloor>log 2 \<bar>x\<bar>\<rfloor> \<le> \<bar>x\<bar>" using floor_log2_bounds(1) [of "\<bar>x\<bar>"] assms(1) by simp
  hence lt: "(2::real) powi \<lfloor>log 2 \<bar>x\<bar>\<rfloor> < 2 powi k" using assms(2) by linarith
  have "\<lfloor>log 2 \<bar>x\<bar>\<rfloor> < k"
  proof (rule ccontr)
    assume "\<not> \<lfloor>log 2 \<bar>x\<bar>\<rfloor> < k"
    hence "k \<le> \<lfloor>log 2 \<bar>x\<bar>\<rfloor>" by simp
    hence "(2::real) powi k \<le> 2 powi \<lfloor>log 2 \<bar>x\<bar>\<rfloor>" by (intro power_int_increasing) simp_all
    thus False using lt by linarith
  qed
  thus ?thesis using assms(3) by (simp add: ulp_exp_def)
qed

lemma rd_error_bound:
  assumes "\<bar>x\<bar> < 2 powi k" and "- 1021 \<le> k"
  shows "\<bar>rd x - x\<bar> \<le> 2 powi (k - 54)"
proof (cases "x = 0")
  case True
  thus ?thesis by (simp add: rd_0)
next
  case False
  have "ulp_exp x \<le> k - 53" using False assms by (rule ulp_exp_le)
  hence "(2::real) powi ulp_exp x \<le> 2 powi (k - 53)" by (intro power_int_increasing) simp_all
  moreover have "(2::real) powi (k - 53) / 2 = 2 powi (k - 54)"
    by (simp add: power_int_diff)
  ultimately show ?thesis using rd_error [OF False] by linarith
qed

section \<open>Properties of the statistical utilities\<close>

lemma flt_irrefl: "\<not> flt a a"
  by (cases a) simp_all

lemma count_below_equal:
  "length (filter (\<lambda>x. flt x v) xs) + length (filter (\<lambda>x. feq x v) xs) \<le> length xs"
  by (induction xs) (auto simp: feq_def flt_irrefl)

lemma clamp_unit:
  assumes "0 \<le> p" and "p \<le> c" and "0 \<le> c"
  shows "Math_max2 (F 0) (Math_min2 (F c) (F p)) = F p"
  using assms by (auto simp: Math_max2_def Math_min2_def)

lemma calculatePercentile_steps:
  fixes b e n :: nat
  assumes n: "0 < n" "n < 2 ^ 32" and be: "b + e \<le> n"
  defines "q \<equiv> rd ((real b + real e / 2) / real n)"
  defines "p \<equiv> rd (q * 100)"
  shows "Math_round (Math_max2 (F 0) (Math_min2 (F 100)
           (fmul (fdiv (fadd (F (real b)) (fmul (F (1 / 2)) (F (real e)))) (F (real n))) (F 100))))
         = F (of_int \<lfloor>p + 1 / 2\<rfloor>)"
    and "0 \<le> q" and "q \<le> 1" and "0 \<le> p" and "p \<le> 100"
proof -
  have e53: "e \<le> 2 ^ 53" and be53: "2 * b + e \<le> 2 ^ 53"
    using n be by (simp_all add: order_trans [of _ "2 ^ 33"])
  have "fmul (F (1 / 2)) (F (real e)) = fl (real e / 2)" by simp
  also have "\<dots> = F (real e / 2)"
    using e53 by (subst fl_small) (simp_all add: rd_half_nat)
  finally have s1: "fmul (F (1 / 2)) (F (real e)) = F (real e / 2)" .
  have t: "real b + real e / 2 = real (2 * b + e) / 2" by simp
  have "fadd (F (real b)) (F (real e / 2)) = fl (real (2 * b + e) / 2)" by (simp add: t)
  also have "\<dots> = F (real (2 * b + e) / 2)"
    using be53 by (subst fl_small) (simp_all only: rd_half_nat, simp_all)
  finally have s2: "fadd (F (real b)) (F (real e / 2)) = F (real b + real e / 2)" by (simp add: t)
  have r0: "0 \<le> (real b + real e / 2) / real n" by simp
  have "real b + real e / 2 \<le> real (b + e)" by simp
  also have "\<dots> \<le> real n" using be by (simp only: of_nat_le_iff)
  finally have r1: "(real b + real e / 2) / real n \<le> 1" using n by simp
  show q0: "0 \<le> q" unfolding q_def using r0 by (rule rd_nonneg)
  have "\<bar>q\<bar> \<le> of_int 1" unfolding q_def using r0 r1 by (intro rd_abs_le_int) simp_all
  thus q1: "q \<le> 1" by simp
  have "\<bar>(real b + real e / 2) / real n\<bar> \<le> 2 ^ 53" using r0 r1 by simp
  hence s3: "fdiv (F (real b + real e / 2)) (F (real n)) = F q"
    using n unfolding q_def by (simp add: fl_small)
  show p0: "0 \<le> p" unfolding p_def using q0 by (intro rd_nonneg) simp
  have "\<bar>p\<bar> \<le> of_int 100" unfolding p_def using q0 q1 by (intro rd_abs_le_int) simp_all
  thus p100: "p \<le> 100" by simp
  have "\<bar>q * 100\<bar> \<le> 2 ^ 53" using q0 q1 by (simp add: abs_mult)
  hence s4: "fmul (F q) (F 100) = F p"
    unfolding p_def by (simp add: fl_small)
  show "Math_round (Math_max2 (F 0) (Math_min2 (F 100)
           (fmul (fdiv (fadd (F (real b)) (fmul (F (1 / 2)) (F (real e)))) (F (real n))) (F 100))))
         = F (of_int \<lfloor>p + 1 / 2\<rfloor>)"
    unfolding s1 s2 s3 s4 using p0 p100 by (simp add: clamp_unit)
qed

lemma floor_half_close:
  assumes "\<bar>p - P\<bar> < 1"
  shows "\<bar>\<lfloor>p + 1 / 2\<rfloor> - \<lfloor>P + 1 / 2 :: real\<rfloor>\<bar> \<le> 1"
proof -
  have "\<lfloor>p + 1 / 2\<rfloor> \<le> \<lfloor>(P + 1 / 2) + of_int 1\<rfloor>" using assms by (intro floor_mono) simp
  hence a: "\<lfloor>p + 1 / 2\<rfloor> \<le> \<lfloor>P + 1 / 2\<rfloor> + 1" by (simp only: floor_add_int)
  have "\<lfloor>P + 1 / 2\<rfloor> \<le> \<lfloor>(p + 1 / 2) + of_int 1\<rfloor>" using assms by (intro floor_mono) simp
  hence b: "\<lfloor>P + 1 / 2\<rfloor> \<le> \<lfloor>p + 1 / 2\<rfloor> + 1" by (simp only: floor_add_int)
  from a b show ?thesis by linarith
qed

lemma percentile_error:
  assumes "0 \<le> t" and "t \<le> 1"
  shows "\<bar>rd (rd t * 100) - t * 100\<bar> < 1"
proof -
  have "\<bar>rd t - t\<bar> \<le> 2 powi (1 - 54)"
    using assms by (intro rd_error_bound) simp_all
  hence a: "\<bar>rd t - t\<bar> \<le> 1 / 2 ^ 53" by (simp add: power_int_minus_divide)
  have "\<bar>rd t\<bar> \<le> of_int 1" using assms by (intro rd_abs_le_int) simp_all
  hence "\<bar>rd t * 100\<bar> < 2 powi 7" by simp
  hence "\<bar>rd (rd t * 100) - rd t * 100\<bar> \<le> 2 powi (7 - 54)"
    by (intro rd_error_bound) simp_all
  hence b: "\<bar>rd (rd t * 100) - rd t * 100\<bar> \<le> 1 / 2 ^ 47" by (simp add: power_int_minus_divide)
  have split: "rd (rd t * 100) - t * 100 = (rd (rd t * 100) - rd t * 100) + 100 * (rd t - t)"
    by simp
  have m: "\<bar>100 * (rd t - t)\<bar> = 100 * \<bar>rd t - t\<bar>" by (subst abs_mult) simp
  have "\<bar>rd (rd t * 100) - t * 100\<bar> \<le> \<bar>rd (rd t * 100) - rd t * 100\<bar> + \<bar>100 * (rd t - t)\<bar>"
    by (subst split) (rule abs_triangle_ineq)
  hence "\<bar>rd (rd t * 100) - t * 100\<bar> \<le> \<bar>rd (rd t * 100) - rd t * 100\<bar> + 100 * \<bar>rd t - t\<bar>"
    by (simp only: m)
  also have "\<dots> \<le> 1 / 2 ^ 47 + 100 * (1 / 2 ^ 53)"
    using a b by (intro add_mono mult_left_mono) simp_all
  also have "\<dots> < 1" by simp
  finally show ?thesis .
qed

lemma calculatePercentile_value:
  assumes "allValues \<noteq> []" and "length allValues < 2 ^ 32"
  shows "calculatePercentile v allValues =
           F (of_int \<lfloor>rd (rd ((real (length (filter (\<lambda>x. flt x v) allValues))
                                  + real (length (filter (\<lambda>x. feq x v) allValues)) / 2)
                                 / real (length allValues)) * 100) + 1 / 2\<rfloor>)"
  using assms calculatePercentile_steps(1) [OF _ assms(2) count_below_equal [of v allValues]]
  by (simp add: calculatePercentile_def Let_def)

lemma rd_23_40: "rd (23 / 40) = 2589569785738035 / 4503599627370496"
  by (subst rd_eval [where e = "- 53"]) (simp_all add: round_even_def)

lemma rd_57: "rd (64739244643450875 / 1125899906842624) = 8092405580431359 / 140737488355328"
  by (subst rd_eval [where e = "- 47"]) (simp_all add: round_even_def)

lemma rd_5_8: "rd (5 / 8) = 5 / 8"
  using rd_repr [of 5 "- 3"] by simp

lemma rd_125_2: "rd (125 / 2) = 125 / 2"
  using rd_repr [of 125 "- 1"] by simp

text \<open>
  C5 (as stated). The claim is that \<open>calculatePercentile\<close> is the mid-rank formula
  \<open>round((countBelow + 0.5 * countEqual) / total * 100)\<close>. In double arithmetic it is not:
  for the value \<open>1\<close> among eleven \<open>0\<close>, one \<open>1\<close> and eight \<open>2\<close> the formula is
  \<open>round(57.5) = 58\<close>, and the code computes \<open>11.5 / 20 = 0.575\<close> rounded down to the
  nearest double, times \<open>100\<close> is \<open>57.49999999999999\<close>, and returns \<open>57\<close>.
\<close>

theorem calculatePercentile_not_exact_midrank:
  "calculatePercentile (F 1) twentyValues = F 57 \<and> midrank_exact (F 1) twentyValues = 58"
proof -
  have ne: "twentyValues \<noteq> []" and len: "length twentyValues < 2 ^ 32"
    by (simp_all add: twentyValues_def)
  have "calculatePercentile (F 1) twentyValues = F 57"
    unfolding calculatePercentile_value [OF ne len]
    by (simp add: twentyValues_def feq_def rd_23_40 rd_57)
  moreover have "midrank_exact (F 1) twentyValues = 58"
    by (simp add: midrank_exact_def twentyValues_def feq_def)
  ultimately show ?thesis by simp
qed

text \<open>
  C5 (amended). For every value \<open>v\<close> and every non-empty array of values (an array has
  fewer than \<open>2 ^ 32\<close> elements), \<open>calculatePercentile(v, allValues)\<close> is
  \<open>Math.round\<close> of the mid-rank formula evaluated in double arithmetic: the quotient
  \<open>(countBelow + 0.5 * countEqual) / total\<close> rounded to the nearest double, times \<open>100\<close>
  rounded to the nearest double (the sum and the half are exact). The result is an
  integer from \<open>0\<close> to \<open>100\<close>, so the clamp changes nothing, and it is at most one away
  from the formula evaluated exactly. \<open>countBelow\<close> counts the values strictly below
  \<open>v\<close>, \<open>countEqual\<close> the values equal to \<open>v\<close>.
\<close>

theorem calculatePercentile_double_midrank:
  assumes "allValues \<noteq> []" and "length allValues < 2 ^ 32"
  shows "\<exists>r. calculatePercentile v allValues = F (of_int r)
             \<and> r = \<lfloor>rd (rd ((real (length (filter (\<lambda>x. flt x v) allValues))
                                 + real (length (filter (\<lambda>x. feq x v) allValues)) / 2)
                                / real (length allValues)) * 100) + 1 / 2\<rfloor>
             \<and> 0 \<le> r \<and> r \<le> 100
             \<and> \<bar>r - midrank_exact v allValues\<bar> \<le> 1"
proof -
  define b where "b = length (filter (\<lambda>x. flt x v) allValues)"
  define e where "e = length (filter (\<lambda>x. feq x v) allValues)"
  define n where "n = length allValues"
  define t where "t = (real b + real e / 2) / real n"
  have n: "0 < n" "n < 2 ^ 32" and be: "b + e \<le> n"
    using assms count_below_equal [of v allValues] by (simp_all add: n_def b_def e_def)
  note st = calculatePercentile_steps [OF n be, folded t_def]
  have t0: "0 \<le> t" by (simp add: t_def)
  have "real b + real e / 2 \<le> real (b + e)" by simp
  also have "\<dots> \<le> real n" using be by (simp only: of_nat_le_iff)
  finally have t1: "t \<le> 1" using n by (simp add: t_def)
  have val: "calculatePercentile v allValues = F (of_int \<lfloor>rd (rd t * 100) + 1 / 2\<rfloor>)"
    using calculatePercentile_value [OF assms] by (simp add: t_def b_def e_def n_def)
  have r0: "0 \<le> \<lfloor>rd (rd t * 100) + 1 / 2\<rfloor>" using st(4) by simp
  have "rd (rd t * 100) + 1 / 2 < 101" using st(5) by simp
  hence r100: "\<lfloor>rd (rd t * 100) + 1 / 2\<rfloor> \<le> 100" by (simp add: floor_less_iff)
  have "0 \<le> \<lfloor>t * 100 + 1 / 2\<rfloor>" using t0 by simp
  moreover have "t * 100 + 1 / 2 < 101" using t1 by simp
  hence "\<lfloor>t * 100 + 1 / 2\<rfloor> \<le> 100" by (simp add: floor_less_iff)
  ultimately have ex: "midrank_exact v allValues = \<lfloor>t * 100 + 1 / 2\<rfloor>"
    by (simp add: midrank_exact_def t_def b_def e_def n_def)
  have close: "\<bar>\<lfloor>rd (rd t * 100) + 1 / 2\<rfloor> - \<lfloor>t * 100 + 1 / 2\<rfloor>\<bar> \<le> 1"
    using percentile_error [OF t0 t1] by (rule floor_half_close)
  show ?thesis
    using val r0 r100 close unfolding ex t_def b_def e_def n_def by blast
qed

text \<open>The example of the specification: \<open>percentileRank(3, [1,2,3,4]) = 63\<close>.\<close>

theorem calculatePercentile_double_midrank_witness:
  "[F 1, F 2, F 3, F 4] \<noteq> [] \<and> length [F 1, F 2, F 3, F 4] < (2::nat) ^ 32
   \<and> calculatePercentile (F 3) [F 1, F 2, F 3, F 4] = F 63"
  using calculatePercentile_double_midrank [of "[F 1, F 2, F 3, F 4]" "F 3"]
  by (simp add: feq_def rd_5_8 rd_125_2)


lemma usableValues_double:
  assumes "x \<in> set (usableValues S data k)"
  shows "rd x = x" and "\<bar>x\<bar> < 2 ^ 1024"
proof -
  from assms obtain p where "Number_of S (field p k) = F x"
    by (auto simp: usableValues_def map_filter_def split: num.splits)
  from Number_of_is_F [OF this] show "rd x = x" and "\<bar>x\<bar> < 2 ^ 1024" by simp_all
qed

lemma rd_succ_ge: "rd c = c \<Longrightarrow> c \<le> rd (c + 1)"
  using rd_mono [of c "c + 1"] by simp

lemma rd_succ_gt:
  assumes "\<bar>c\<bar> < 2 ^ 53"
  shows "c < rd (c + 1)"
proof (cases "\<bar>c + 1\<bar> < 2 ^ 53")
  case True
  hence "\<bar>c + 1\<bar> < 2 powi 53" by simp
  hence "\<bar>rd (c + 1) - (c + 1)\<bar> \<le> 2 powi (53 - 54)" by (intro rd_error_bound) simp_all
  hence "\<bar>rd (c + 1) - (c + 1)\<bar> \<le> 1 / 2" by (simp add: power_int_minus_divide)
  thus ?thesis by linarith
next
  case False
  hence "2 ^ 53 \<le> c + 1" using assms by linarith
  hence "rd (2 ^ 53) \<le> rd (c + 1)" by (rule rd_mono)
  moreover have "rd (2 ^ 53) = 2 ^ 53" using rd_of_int [of "2 ^ 53"] by simp
  ultimately show ?thesis using assms by linarith
qed

lemma fle_F_fl:
  assumes "rd c = c" and "\<bar>c\<bar> < 2 ^ 1024"
  shows "fle (F c) (fl (c + 1))"
proof -
  have "c \<le> rd (c + 1)" using assms(1) by (rule rd_succ_ge)
  moreover have "- (2 ^ 1024) < c" using assms(2) by linarith
  ultimately show ?thesis
    by (auto simp: fl_def Let_def fle_def feq_def)
qed

lemma calculateMetricBounds_empty:
  "usableValues S data k = [] \<Longrightarrow>
     calculateMetricBounds S data k = \<lparr>minB = F 0, maxB = F 1, mean = F 0, stdDev = F 1\<rparr>"
  by (simp add: calculateMetricBounds_def)

lemma calculateMetricBounds_min_max:
  assumes "usableValues S data k \<noteq> []"
  shows "minB (calculateMetricBounds S data k) = F (Min (set (usableValues S data k)))"
    and "maxB (calculateMetricBounds S data k) =
           (if Max (set (usableValues S data k)) = Min (set (usableValues S data k))
            then fadd (F (Min (set (usableValues S data k)))) (F 1)
            else F (Max (set (usableValues S data k))))"
  using assms by (simp_all add: calculateMetricBounds_def Let_def)

lemma calculateMetricBounds_min_le_max:
  "fle (minB (calculateMetricBounds S data k)) (maxB (calculateMetricBounds S data k))"
proof (cases "usableValues S data k = []")
  case True
  thus ?thesis by (simp add: calculateMetricBounds_empty fle_def)
next
  case False
  let ?vals = "usableValues S data k"
  have mem: "Min (set ?vals) \<in> set ?vals" using False by (intro Min_in) simp_all
  have le: "Min (set ?vals) \<le> Max (set ?vals)" using False by (simp add: Min_le_iff)
  show ?thesis
  proof (cases "Max (set ?vals) = Min (set ?vals)")
    case True
    thus ?thesis
      using fle_F_fl [OF usableValues_double [OF mem]]
      by (simp add: calculateMetricBounds_min_max [OF False])
  next
    case ne: False
    thus ?thesis using le by (simp add: calculateMetricBounds_min_max [OF False] fle_def)
  qed
qed

lemma calculateMetricBounds_all_equal:
  assumes "set (usableValues S data k) = {c}"
  shows "minB (calculateMetricBounds S data k) = F c"
    and "maxB (calculateMetricBounds S data k) = fadd (F c) (F 1)"
    and "\<bar>c\<bar> < 2 ^ 53 \<Longrightarrow> flt (F c) (fadd (F c) (F 1))"
    and "c \<in> \<int> \<Longrightarrow> \<bar>c\<bar> < 2 ^ 53 \<Longrightarrow> fadd (F c) (F 1) = F (c + 1)"
proof -
  have ne: "usableValues S data k \<noteq> []" using assms by auto
  show "minB (calculateMetricBounds S data k) = F c"
    and "maxB (calculateMetricBounds S data k) = fadd (F c) (F 1)"
    using assms by (simp_all add: calculateMetricBounds_min_max [OF ne])
  show "flt (F c) (fadd (F c) (F 1))" if "\<bar>c\<bar> < 2 ^ 53"
    using rd_succ_gt [OF that] that by (auto simp: fl_def Let_def)
  show "fadd (F c) (F 1) = F (c + 1)" if c: "c \<in> \<int>" and b: "\<bar>c\<bar> < 2 ^ 53"
  proof -
    from c obtain n where n: "c = of_int n" by (auto elim: Ints_cases)
    have "real_of_int \<bar>n\<bar> < real_of_int (2 ^ 53)" using b n by simp
    hence "\<bar>n\<bar> < 2 ^ 53" by (simp only: of_int_less_iff)
    hence "\<bar>n + 1\<bar> \<le> 2 ^ 53" by linarith
    hence "fl (of_int (n + 1)) = F (of_int (n + 1))" by (rule fl_of_int)
    thus ?thesis by (simp add: n)
  qed
qed

lemma usableValues_metricRows:
  "k \<noteq> ''Player'' \<Longrightarrow>
     usableValues S (metricRows k cs) k
       = List.map_filter (\<lambda>c. case Number_of S (Some c) of F x \<Rightarrow> Some x | _ \<Rightarrow> None) cs"
  by (simp add: usableValues_def metricRows_def field_def List.map_filter_def filter_map comp_def)

lemma rd_2_53_1: "rd 9007199254740993 = 9007199254740992"
  by (subst rd_eval [where e = "1"]) (simp_all add: round_even_def)

text \<open>
  C6 (as stated). The claim is that a cohort whose usable values are all equal gets
  \<open>max = min + 1\<close>. In double arithmetic \<open>min + 1\<close> is rounded: for two players with the
  value \<open>2 ^ 53\<close> the sum \<open>2 ^ 53 + 1\<close> rounds back to \<open>2 ^ 53\<close>, and the code returns
  \<open>max = min\<close>.
\<close>

theorem calculateMetricBounds_max_equals_min:
  "set (usableValues (\<lambda>s. NaN)
          (metricRows ''Goals'' [Num (F 9007199254740992), Num (F 9007199254740992)]) ''Goals'')
     = {9007199254740992}
   \<and> minB (calculateMetricBounds (\<lambda>s. NaN)
          (metricRows ''Goals'' [Num (F 9007199254740992), Num (F 9007199254740992)]) ''Goals'')
     = F 9007199254740992
   \<and> maxB (calculateMetricBounds (\<lambda>s. NaN)
          (metricRows ''Goals'' [Num (F 9007199254740992), Num (F 9007199254740992)]) ''Goals'')
     = F 9007199254740992"
proof -
  let ?d = "metricRows ''Goals'' [Num (F 9007199254740992), Num (F 9007199254740992)]"
  have u: "usableValues (\<lambda>s. NaN) ?d ''Goals'' = [9007199254740992, 9007199254740992]"
    by (simp add: usableValues_metricRows fl_numeral)
  hence s: "set (usableValues (\<lambda>s. NaN) ?d ''Goals'') = {9007199254740992}" by simp
  have "fadd (F 9007199254740992) (F 1) = F 9007199254740992"
    by (simp add: fl_F rd_2_53_1)
  thus ?thesis
    using s calculateMetricBounds_all_equal(1,2) [OF s] by simp
qed

text \<open>
  C6 (amended). For every cohort and metric, \<open>calculateMetricBounds\<close> returns bounds with
  \<open>max \<ge> min\<close>. When the usable values of the cohort (the cells that \<open>Number\<close> reads as a
  finite number) are all equal to \<open>c\<close>, \<open>min\<close> is \<open>c\<close> and \<open>max\<close> is the double sum
  \<open>c + 1\<close>: it is strictly above \<open>min\<close> when \<open>\<bar>c\<bar> < 2 ^ 53\<close>, and it is exactly \<open>c + 1\<close>
  when moreover \<open>c\<close> is an integer. When there is no usable value, the result is exactly
  \<open>{min: 0, max: 1, mean: 0, stdDev: 1}\<close>.
\<close>

theorem calculateMetricBounds_range:
  "fle (minB (calculateMetricBounds S data k)) (maxB (calculateMetricBounds S data k))
   \<and> (set (usableValues S data k) = {c} \<longrightarrow>
        minB (calculateMetricBounds S data k) = F c
        \<and> maxB (calculateMetricBounds S data k) = fadd (F c) (F 1)
        \<and> (\<bar>c\<bar> < 2 ^ 53 \<longrightarrow>
              flt (minB (calculateMetricBounds S data k)) (maxB (calculateMetricBounds S data k)))
        \<and> (c \<in> \<int> \<and> \<bar>c\<bar> < 2 ^ 53 \<longrightarrow> maxB (calculateMetricBounds S data k) = F (c + 1)))
   \<and> (usableValues S data k = [] \<longrightarrow>
        calculateMetricBounds S data k = \<lparr>minB = F 0, maxB = F 1, mean = F 0, stdDev = F 1\<rparr>)"
  using calculateMetricBounds_min_le_max [of S data k]
    calculateMetricBounds_all_equal [of S data k c]
    calculateMetricBounds_empty [of S data k]
  by simp

theorem calculateMetricBounds_range_witness:
  "minB (calculateMetricBounds (\<lambda>s. NaN)
           (metricRows ''Goals'' [Num (F 2), Num (F 2), Str ''n/a'']) ''Goals'') = F 2
   \<and> maxB (calculateMetricBounds (\<lambda>s. NaN)
           (metricRows ''Goals'' [Num (F 2), Num (F 2), Str ''n/a'']) ''Goals'') = F 3
   \<and> flt (F 2) (F 3)
   \<and> calculateMetricBounds (\<lambda>s. NaN) (metricRows ''Goals'' [Str ''n/a'']) ''Goals''
        = \<lparr>minB = F 0, maxB = F 1, mean = F 0, stdDev = F 1\<rparr>"
proof -
  let ?d = "metricRows ''Goals'' [Num (F 2), Num (F 2), Str ''n/a'']"
  have u: "set (usableValues (\<lambda>s. NaN) ?d ''Goals'') = {2}"
    by (simp add: usableValues_metricRows fl_numeral)
  have e: "usableValues (\<lambda>s. NaN) (metricRows ''Goals'' [Str ''n/a'']) ''Goals'' = []"
    by (simp add: usableValues_metricRows)
  have z: "(2::real) \<in> \<int>" and b: "\<bar>2::real\<bar> < 2 ^ 53" by simp_all
  from calculateMetricBounds_range [of "\<lambda>s. NaN" ?d "''Goals''" 2] u z b
  have a: "minB (calculateMetricBounds (\<lambda>s. NaN) ?d ''Goals'') = F 2"
    and c: "maxB (calculateMetricBounds (\<lambda>s. NaN) ?d ''Goals'') = F (2 + 1)"
    and l: "flt (minB (calculateMetricBounds (\<lambda>s. NaN) ?d ''Goals''))
                (maxB (calculateMetricBounds (\<lambda>s. NaN) ?d ''Goals''))"
    by blast+
  from calculateMetricBounds_range [of "\<lambda>s. NaN" "metricRows ''Goals'' [Str ''n/a'']" "''Goals''" 0] e
  have d: "calculateMetricBounds (\<lambda>s. NaN) (metricRows ''Goals'' [Str ''n/a'']) ''Goals''
             = \<lparr>minB = F 0, maxB = F 1, mean = F 0, stdDev = F 1\<rparr>"
    by blast
  from a c l d show ?thesis by simp
qed


lemma calculateMetricBounds_stdDev_pos:
  "flt (F 0) (stdDev (calculateMetricBounds S data k))"
  by (simp add: calculateMetricBounds_def Let_def fsqrt_positive)

lemma calculateZScore_bounds:
  "calculateZScore v (calculateMetricBounds S data k) =
     fdiv (fsub v (mean (calculateMetricBounds S data k))) (stdDev (calculateMetricBounds S data k))"
proof -
  have "\<not> feq (stdDev (calculateMetricBounds S data k)) (F 0)"
    using calculateMetricBounds_stdDev_pos [of S data k] by (auto simp: feq_def)
  thus ?thesis by (simp add: calculateZScore_def)
qed

lemma calculateMetricBounds_zero_variance:
  assumes s: "set (usableValues S data k) = {c}"
    and mu: "mean (calculateMetricBounds S data k) = F c"
  shows "stdDev (calculateMetricBounds S data k) = F 1"
    and "calculateZScore v (calculateMetricBounds S data k) = fsub v (F c)"
proof -
  let ?vals = "usableValues S data k"
  have ne: "?vals \<noteq> []" using s by auto
  have mean: "fdiv (js_sum (map F ?vals)) (F (real (length ?vals))) = F c"
    using mu ne by (simp add: calculateMetricBounds_def Let_def)
  have "\<forall>x \<in> set (map (\<lambda>v. fpow2 (fsub (F v) (F c))) ?vals). x = F 0"
    using s by (auto simp: fpow2_def fsub_def fl_0)
  hence "js_sum (map (\<lambda>v. fpow2 (fsub (F v) (F c))) ?vals) = F 0" by (rule js_sum_zeros)
  thus sd: "stdDev (calculateMetricBounds S data k) = F 1"
    using ne by (simp add: calculateMetricBounds_def Let_def mean fl_0 truthy_def)
  show "calculateZScore v (calculateMetricBounds S data k) = fsub v (F c)"
    unfolding calculateZScore_bounds sd mu fsub_def by (rule fdiv_fadd_1)
qed

lemma js_sum_equal_integers:
  assumes "\<forall>v \<in> set vs. v = of_int m" and "\<bar>m\<bar> * int (j + length vs) \<le> 2 ^ 53"
  shows "fold (\<lambda>b a. fadd a b) (map F vs) (F (of_int (int j * m)))
           = F (of_int (int (j + length vs) * m))"
  using assms
proof (induction vs arbitrary: j)
  case Nil
  show ?case by simp
next
  case (Cons v vs)
  have v: "v = of_int m" using Cons.prems(1) by simp
  have "\<bar>int (Suc j) * m\<bar> = \<bar>m\<bar> * int (Suc j)" by (simp add: abs_mult)
  also have "\<dots> \<le> \<bar>m\<bar> * int (j + length (v # vs))" by (intro mult_left_mono) simp_all
  also have "\<dots> \<le> 2 ^ 53" by (rule Cons.prems(2))
  finally have f: "fl (of_int (int (Suc j) * m)) = F (of_int (int (Suc j) * m))" by (rule fl_of_int)
  have e: "real_of_int (int j * m) + v = real_of_int (int (Suc j) * m)"
    by (simp add: v algebra_simps)
  have step: "fadd (F (of_int (int j * m))) (F v) = F (of_int (int (Suc j) * m))"
    by (simp only: fadd.simps e f)
  have "fold (\<lambda>b a. fadd a b) (map F (v # vs)) (F (of_int (int j * m)))
          = fold (\<lambda>b a. fadd a b) (map F vs) (fadd (F (of_int (int j * m))) (F v))"
    by simp
  also have "\<dots> = fold (\<lambda>b a. fadd a b) (map F vs) (F (of_int (int (Suc j) * m)))"
    by (simp only: step)
  also have "\<dots> = F (of_int (int (Suc j + length vs) * m))"
    using Cons.prems by (intro Cons.IH) simp_all
  also have "Suc j + length vs = j + length (v # vs)" by simp
  finally show ?case .
qed

lemma calculateMetricBounds_mean_integer:
  assumes s: "set (usableValues S data k) = {c}" and c: "c \<in> \<int>"
    and b: "\<bar>c\<bar> * real (length (usableValues S data k)) \<le> 2 ^ 53"
  shows "mean (calculateMetricBounds S data k) = F c"
proof -
  let ?vals = "usableValues S data k"
  from c obtain m where m: "c = of_int m" by (auto elim: Ints_cases)
  have ne: "?vals \<noteq> []" using s by auto
  hence len: "0 < length ?vals" by simp
  have "real_of_int (\<bar>m\<bar> * int (length ?vals)) \<le> real_of_int (2 ^ 53)" using b m by simp
  hence bm: "\<bar>m\<bar> * int (length ?vals) \<le> 2 ^ 53" by (simp only: of_int_le_iff)
  have "1 \<le> int (length ?vals)" using ne by (cases "usableValues S data k") simp_all
  hence "\<bar>m\<bar> * 1 \<le> \<bar>m\<bar> * int (length ?vals)" by (intro mult_left_mono) simp_all
  hence m53: "\<bar>m\<bar> \<le> 2 ^ 53" using bm by simp
  have "js_sum (map F ?vals) = F (of_int (int (length ?vals) * m))"
    using js_sum_equal_integers [of ?vals m 0] s bm by (simp add: js_sum_def m)
  hence "fdiv (js_sum (map F ?vals)) (F (real (length ?vals))) = fl (of_int m)"
    using len by simp
  also have "\<dots> = F c" using m53 by (simp add: fl_of_int m)
  finally show ?thesis using ne by (simp add: calculateMetricBounds_def Let_def)
qed

lemma rd_tenth: "rd (1 / 10) = 3602879701896397 / 36028797018963968"
  by (subst rd_eval [where e = "- 56"]) (simp_all add: round_even_def)

lemma rd_tenth_1: "rd (3602879701896397 / 36028797018963968) = 3602879701896397 / 36028797018963968"
  by (subst rd_eval [where e = "- 56"]) (simp_all add: round_even_def)

lemma rd_tenth_2: "rd (3602879701896397 / 18014398509481984) = 3602879701896397 / 18014398509481984"
  by (subst rd_eval [where e = "- 55"]) (simp_all add: round_even_def)

lemma rd_tenth_3: "rd (10808639105689191 / 36028797018963968) = 1351079888211149 / 4503599627370496"
  by (subst rd_eval [where e = "- 54"]) (simp_all add: round_even_def)

lemma rd_tenth_mean: "rd (1351079888211149 / 13510798882111488) = 7205759403792795 / 72057594037927936"
  by (subst rd_eval [where e = "- 56"]) (simp_all add: round_even_def)

lemma rd_tenth_diff: "rd (- (1 / 72057594037927936)) = - (1 / 72057594037927936)"
  by (subst rd_eval [where e = "- 108"]) (simp_all add: round_even_def)

lemma rd_tenth_sq: "rd (1 / 5192296858534827628530496329220096) = 1 / 5192296858534827628530496329220096"
  by (subst rd_eval [where e = "- 164"]) (simp_all add: round_even_def)

lemma rd_tenth_sq2: "rd (1 / 2596148429267413814265248164610048) = 1 / 2596148429267413814265248164610048"
  by (subst rd_eval [where e = "- 163"]) (simp_all add: round_even_def)

lemma rd_tenth_sq3: "rd (3 / 5192296858534827628530496329220096) = 3 / 5192296858534827628530496329220096"
  by (subst rd_eval [where e = "- 163"]) (simp_all add: round_even_def)

lemma rd_tenth_sd: "rd (1 / 72057594037927936) = 1 / 72057594037927936"
  by (subst rd_eval [where e = "- 108"]) (simp_all add: round_even_def)

lemma sqrt_tenth: "sqrt (1 / 5192296858534827628530496329220096) = 1 / 72057594037927936"
  by (rule real_sqrt_unique) (simp_all add: power2_eq_square)

lemmas rd_tenths = rd_tenth rd_tenth_1 rd_tenth_2 rd_tenth_3 rd_tenth_mean rd_tenth_diff
  rd_tenth_sq rd_tenth_sq2 rd_tenth_sq3 rd_tenth_sd

lemma tenths_usable:
  "usableValues (\<lambda>s. NaN) (metricRows ''xG'' [Num (F (1 / 10)), Num (F (1 / 10)), Num (F (1 / 10))]) ''xG''
     = [3602879701896397 / 36028797018963968, 3602879701896397 / 36028797018963968,
        3602879701896397 / 36028797018963968]"
  by (simp add: usableValues_metricRows fl_F rd_tenths)

lemma tenths_mean:
  "mean (calculateMetricBounds (\<lambda>s. NaN)
           (metricRows ''xG'' [Num (F (1 / 10)), Num (F (1 / 10)), Num (F (1 / 10))]) ''xG'')
     = F (7205759403792795 / 72057594037927936)"
  by (simp add: calculateMetricBounds_def tenths_usable Let_def js_sum_def fl_F rd_tenths fl_0)

lemma tenths_stdDev:
  "stdDev (calculateMetricBounds (\<lambda>s. NaN)
           (metricRows ''xG'' [Num (F (1 / 10)), Num (F (1 / 10)), Num (F (1 / 10))]) ''xG'')
     = F (1 / 72057594037927936)"
  by (simp add: calculateMetricBounds_def tenths_usable Let_def js_sum_def fsub_def fpow2_def
      fl_F rd_tenths fl_0 sqrt_tenth truthy_def)

text \<open>
  C10 (as stated). The claim is that a zero-variance cohort gets \<open>stdDev = 1\<close> and that a
  z-score against it is \<open>value - mean\<close>. In double arithmetic the mean of equal values need
  not be their value: for three players with \<open>0.1\<close> the sum is \<open>0.30000000000000004\<close>, the
  mean \<open>0.10000000000000002\<close>, every squared difference \<open>2 ^ -112\<close>, and the code returns
  \<open>stdDev = 2 ^ -56\<close>; the z-score of \<open>0.1\<close> is \<open>-1\<close>, and \<open>value - mean\<close> is \<open>- 2 ^ -56\<close>.
\<close>

theorem calculateMetricBounds_equal_values_stdDev:
  "set (usableValues (\<lambda>s. NaN)
          (metricRows ''xG'' [Num (F (1 / 10)), Num (F (1 / 10)), Num (F (1 / 10))]) ''xG'')
     = {3602879701896397 / 36028797018963968}
   \<and> stdDev (calculateMetricBounds (\<lambda>s. NaN)
          (metricRows ''xG'' [Num (F (1 / 10)), Num (F (1 / 10)), Num (F (1 / 10))]) ''xG'')
     = F (1 / 72057594037927936)
   \<and> calculateZScore (F (3602879701896397 / 36028797018963968))
        (calculateMetricBounds (\<lambda>s. NaN)
          (metricRows ''xG'' [Num (F (1 / 10)), Num (F (1 / 10)), Num (F (1 / 10))]) ''xG'')
     = F (- 1)
   \<and> fsub (F (3602879701896397 / 36028797018963968))
        (mean (calculateMetricBounds (\<lambda>s. NaN)
          (metricRows ''xG'' [Num (F (1 / 10)), Num (F (1 / 10)), Num (F (1 / 10))]) ''xG''))
     = F (- (1 / 72057594037927936))"
  by (simp add: tenths_usable tenths_stdDev tenths_mean calculateZScore_def feq_def fsub_def
      fl_F rd_tenths fl_neg_1)

text \<open>
  C10 (amended). For every cohort and metric, the \<open>stdDev\<close> that \<open>calculateMetricBounds\<close>
  returns is strictly positive, so on bounds made by \<open>calculateMetricBounds\<close> the branch
  \<open>stdDev === 0\<close> of \<open>calculateZScore\<close> is never taken: the z-score is
  \<open>(value - mean) / stdDev\<close>. The \<open>stdDev\<close> is \<open>1\<close> for a cohort with no usable value. For
  a cohort whose usable values are all equal to \<open>c\<close> and whose computed mean is \<open>c\<close>, the
  \<open>stdDev\<close> is \<open>1\<close> and the z-score is the double difference \<open>value - c\<close>, not \<open>0\<close>; the
  computed mean is \<open>c\<close> when \<open>c\<close> is an integer and \<open>\<bar>c\<bar>\<close> times the number of usable values
  is at most \<open>2 ^ 53\<close>.
\<close>

theorem calculateMetricBounds_stdDev_positive:
  "flt (F 0) (stdDev (calculateMetricBounds S data k))
   \<and> calculateZScore v (calculateMetricBounds S data k) =
       fdiv (fsub v (mean (calculateMetricBounds S data k))) (stdDev (calculateMetricBounds S data k))
   \<and> (usableValues S data k = [] \<longrightarrow> stdDev (calculateMetricBounds S data k) = F 1)
   \<and> (set (usableValues S data k) = {c} \<and> mean (calculateMetricBounds S data k) = F c \<longrightarrow>
        stdDev (calculateMetricBounds S data k) = F 1
        \<and> calculateZScore v (calculateMetricBounds S data k) = fsub v (F c))
   \<and> (set (usableValues S data k) = {c} \<and> c \<in> \<int>
        \<and> \<bar>c\<bar> * real (length (usableValues S data k)) \<le> 2 ^ 53 \<longrightarrow>
        mean (calculateMetricBounds S data k) = F c)"
  using calculateMetricBounds_stdDev_pos [of S data k]
    calculateZScore_bounds [of v S data k]
    calculateMetricBounds_zero_variance(1) [of S data k c]
    calculateMetricBounds_zero_variance(2) [of S data k c v]
    calculateMetricBounds_mean_integer [of S data k c]
    calculateMetricBounds_empty [of S data k]
  by simp

theorem calculateMetricBounds_stdDev_positive_witness:
  "stdDev (calculateMetricBounds (\<lambda>s. NaN) (metricRows ''xG'' [Num (F 2), Num (F 2)]) ''xG'') = F 1
   \<and> calculateZScore (F 5)
        (calculateMetricBounds (\<lambda>s. NaN) (metricRows ''xG'' [Num (F 2), Num (F 2)]) ''xG'') = F 3
   \<and> stdDev (calculateMetricBounds (\<lambda>s. NaN) [] ''xG'') = F 1"
proof -
  let ?d = "metricRows ''xG'' [Num (F 2), Num (F 2)]"
  have l: "usableValues (\<lambda>s. NaN) ?d ''xG'' = [2, 2]"
    by (simp add: usableValues_metricRows fl_numeral)
  hence u: "set (usableValues (\<lambda>s. NaN) ?d ''xG'') = {2}" by simp
  have z: "(2::real) \<in> \<int>"
    and b: "\<bar>2::real\<bar> * real (length (usableValues (\<lambda>s. NaN) ?d ''xG'')) \<le> 2 ^ 53"
    by (simp_all add: l)
  have e: "usableValues (\<lambda>s. NaN) [] ''xG'' = []"
    by (simp add: usableValues_def)
  note t = calculateMetricBounds_stdDev_positive [of "\<lambda>s. NaN" ?d "''xG''" "F 5" 2]
  from t u z b have m: "mean (calculateMetricBounds (\<lambda>s. NaN) ?d ''xG'') = F 2"
    by blast
  from t u m have a: "stdDev (calculateMetricBounds (\<lambda>s. NaN) ?d ''xG'') = F 1"
    and c: "calculateZScore (F 5) (calculateMetricBounds (\<lambda>s. NaN) ?d ''xG'') = fsub (F 5) (F 2)"
    by blast+
  from calculateMetricBounds_stdDev_positive [of "\<lambda>s. NaN" "[]" "''xG''" "F 5" 0] e
  have d: "stdDev (calculateMetricBounds (\<lambda>s. NaN) [] ''xG'') = F 1"
    by blast
  from a c d show ?thesis by (simp add: fsub_def fl_numeral)
qed

section \<open>Properties of role scoring\<close>

lemma fold_role_breakdown:
  "fold (\<lambda>(m, w) (raw, entries).
           let v = num_or_0 S p m; c = fmul v (fl w)
           in (fadd raw c,
               entries @ [\<lparr>metric = m, mvalue = v, weight = fl w, contribution = toFixed 3 c\<rparr>]))
     ms (a, es)
   = (fold (\<lambda>(m, w) score. fadd score (fmul (num_or_0 S p m) (fl w))) ms a,
      es @ map (breakdownEntry S p) ms)"
  by (induction ms arbitrary: a es) (auto simp: Let_def breakdownEntry_def)

lemma calculateRoleScore_raw:
  "map_of defs r = Some d \<Longrightarrow>
     calculateRoleScore defs S q r False None = toFixed 2 (rawRoleScore d S q)"
  by (simp add: calculateRoleScore_def rawRoleScore_def)

lemma calculateDetailedRoleScore_Some:
  assumes "map_of defs r = Some d"
  shows "calculateDetailedRoleScore defs engine S p r cohort =
    Some \<lparr>role = r, rawScore = toFixed 2 (rawRoleScore d S p),
      normalizedScore =
        Math_round (fmul (fdiv (rawRoleScore d S p)
          (Math_max (map (\<lambda>q. toFixed 2 (rawRoleScore d S q)) cohort @ [F 1]))) (F 100)),
      percentile =
        Math_round (fmul (fdiv
          (F (real (length (filter (\<lambda>q. flt (toFixed 2 (rawRoleScore d S q)) (rawRoleScore d S p)) cohort))))
          (F (real (length cohort)))) (F 100)),
      breakdown = sort_desc_by engine contribution (map (breakdownEntry S p) (metrics d))\<rparr>"
  using assms
  unfolding calculateDetailedRoleScore_def fold_role_breakdown
  by (simp add: Let_def rawRoleScore_def calculateRoleScore_raw [OF assms] filter_map comp_def)

lemma map_of_map_key:
  "map_of (map (\<lambda>(k, v). (k, f k v)) xs) k = map_option (f k) (map_of xs k)"
  by (induction xs) auto

lemma calculateMaxScores_Some:
  assumes "map_of defs r = Some d"
  shows "calculateMaxScores defs S data r =
           Some (let mx = fold (\<lambda>player mx.
                                  if flt mx (toFixed 2 (rawRoleScore d S player))
                                  then toFixed 2 (rawRoleScore d S player) else mx)
                            data (F 0)
                 in if flt (F 0) mx then mx else F 1)"
  using assms
  by (simp add: calculateMaxScores_def map_of_map_key Let_def calculateRoleScore_raw [OF assms]
      cong: if_cong)

lemma Target_Man: "map_of ROLE_DEFINITIONS ''Target Man'' = Some targetMan"
  by (simp add: ROLE_DEFINITIONS_def targetMan_def)

lemma Defensive_CB: "map_of ROLE_DEFINITIONS ''Defensive CB'' = Some defensiveCB"
  by (simp add: ROLE_DEFINITIONS_def defensiveCB_def)

lemma rd_quarter: "rd (1 / 4) = 1 / 4"
  using rd_repr [of 1 "- 2"] by simp

lemma rd_half: "rd (1 / 2) = 1 / 2"
  using rd_repr [of 1 "- 1"] by simp

lemma rd_duels: "rd (18014398509481985 / 18014398509481984) = 1"
  by (subst rd_eval [where e = "- 52"]) (simp_all add: round_even_def)

lemma rd_neg_twentieth: "rd (- (1 / 20)) = - (3602879701896397 / 72057594037927936)"
  by (subst rd_eval [where e = "- 57"]) (simp_all add: round_even_def)

lemma rd_fouls: "rd (- (90071992547409925 / 18014398509481984)) = - 5"
  by (subst rd_eval [where e = "- 50"]) (simp_all add: round_even_def)

lemma fmul_0_weight: "\<bar>w\<bar> \<le> 2 ^ 53 \<Longrightarrow> fmul (F 0) (fl w) = F 0"
  by (simp add: fl_small fl_0)

lemma raw_aerial:
  "rawRoleScore targetMan (\<lambda>s. NaN) (aerial 2) = F (1 / 2)"
  "rawRoleScore targetMan (\<lambda>s. NaN) (aerial 4) = F 1"
  "rawRoleScore targetMan (\<lambda>s. NaN) (aerial 8) = F 2"
  "rawRoleScore targetMan (\<lambda>s. NaN) (aerial 12) = F 3"
  "rawRoleScore targetMan (\<lambda>s. NaN) (aerial 16) = F 4"
  by (simp_all add: rawRoleScore_def targetMan_def aerial_def num_or_0_def field_def truthy_def
      fmul_0_weight fl_simps fl_F rd_quarter rd_half)

lemma toFixed_2_small:
  "toFixed 2 (F (1 / 2)) = F (1 / 2)" "toFixed 2 (F 1) = F 1" "toFixed 2 (F 2) = F 2"
  "toFixed 2 (F 3) = F 3" "toFixed 2 (F 4) = F 4"
  by (simp_all add: fl_simps fl_F rd_half)

lemma contributions_fouler:
  "map contribution
     (sort_desc_by engine contribution (map (breakdownEntry (\<lambda>s. NaN) fouler) (metrics defensiveCB)))
     = [F 1, F 0, F 0, F 0, F 0, F 0, F 0, F (- 5)]"
  by (simp add: sort_desc_by_def breakdownEntry_def defensiveCB_def fouler_def num_or_0_def
      field_def truthy_def fmul_0_weight fl_simps fl_F rd_tenth rd_duels rd_neg_twentieth rd_fouls)




text \<open>
  C2. The claim is that the normalized score is
  \<open>round(100 * rawScore / maxRawScoreInCohort)\<close>. \<open>calculateDetailedRoleScore\<close> divides by
  \<open>Math.max(...cohortScores, 1)\<close>, so when the maximum of the cohort is below \<open>1\<close> it
  divides by \<open>1\<close>: a player with raw score \<open>0.5\<close> alone in the cohort gets \<open>50\<close>, where the
  claim gives \<open>100\<close>. The other normalization of the module, \<open>calculateRoleScore\<close> with
  \<open>normalize\<close> and the maxima of \<open>calculateMaxScores\<close>, divides by the maximum itself
  (\<open>0.5\<close>) and returns \<open>100\<close> on the same input.
\<close>

theorem calculateDetailedRoleScore_normalizedScore_floor:
  "map_of ROLE_DEFINITIONS ''Target Man'' = Some targetMan
   \<and> map_option rawScore
       (calculateDetailedRoleScore ROLE_DEFINITIONS (\<lambda>es. es) (\<lambda>s. NaN) (aerial 2) ''Target Man''
          [aerial 2])
     = Some (F (1 / 2))
   \<and> map (\<lambda>q. calculateRoleScore ROLE_DEFINITIONS (\<lambda>s. NaN) q ''Target Man'' False None) [aerial 2]
     = [F (1 / 2)]
   \<and> map_option normalizedScore
       (calculateDetailedRoleScore ROLE_DEFINITIONS (\<lambda>es. es) (\<lambda>s. NaN) (aerial 2) ''Target Man''
          [aerial 2])
     = Some (F 50)
   \<and> calculateMaxScores ROLE_DEFINITIONS (\<lambda>s. NaN) [aerial 2] ''Target Man'' = Some (F (1 / 2))
   \<and> calculateRoleScore ROLE_DEFINITIONS (\<lambda>s. NaN) (aerial 2) ''Target Man'' True
       (Some (calculateMaxScores ROLE_DEFINITIONS (\<lambda>s. NaN) [aerial 2]))
     = F 100"
proof -
  have mx: "calculateMaxScores ROLE_DEFINITIONS (\<lambda>s. NaN) [aerial 2] ''Target Man'' = Some (F (1 / 2))"
    by (simp add: calculateMaxScores_Some [OF Target_Man] raw_aerial fl_simps fl_F rd_half)
  have sib: "calculateRoleScore ROLE_DEFINITIONS (\<lambda>s. NaN) (aerial 2) ''Target Man'' True
       (Some (calculateMaxScores ROLE_DEFINITIONS (\<lambda>s. NaN) [aerial 2])) = F 100"
    using raw_aerial(1)
    by (simp add: calculateRoleScore_def Target_Man mx rawRoleScore_def fl_simps)
  have det: "calculateDetailedRoleScore ROLE_DEFINITIONS (\<lambda>es. es) (\<lambda>s. NaN) (aerial 2) ''Target Man''
          [aerial 2]
        = Some \<lparr>role = ''Target Man'', rawScore = F (1 / 2), normalizedScore = F 50,
                 percentile = F 0,
                 breakdown = sort_desc_by (\<lambda>es. es) contribution
                   (map (breakdownEntry (\<lambda>s. NaN) (aerial 2)) (metrics targetMan))\<rparr>"
    by (simp add: calculateDetailedRoleScore_Some [OF Target_Man] raw_aerial toFixed_2_small
        Math_max_def Math_max2_def fl_simps fl_F rd_half)
  show ?thesis
    by (simp add: Target_Man det mx sib calculateRoleScore_raw [OF Target_Man] raw_aerial
        fl_simps fl_F rd_half)
qed

lemma desc_key_le: "a \<noteq> NaN \<Longrightarrow> b \<noteq> NaN \<Longrightarrow> (desc_key a \<le> desc_key b) = fle b a"
  by (cases a; cases b) (auto simp: fle_def feq_def)

lemma desc_key_eq: "(desc_key a = desc_key b) = (a = b)"
  by (cases a; cases b) auto

lemma sort_desc_by_sorted:
  assumes "\<forall>x \<in> set xs. f x \<noteq> NaN"
  shows "sort_desc_by engine f xs = sort_key (\<lambda>x. desc_key (f x)) xs"
    and "mset (sort_desc_by engine f xs) = mset xs"
    and "sorted_wrt (\<lambda>a b. fle (f b) (f a)) (sort_desc_by engine f xs)"
    and "filter (\<lambda>x. f x = c) (sort_desc_by engine f xs) = filter (\<lambda>x. f x = c) xs"
proof -
  show eq: "sort_desc_by engine f xs = sort_key (\<lambda>x. desc_key (f x)) xs"
    using assms by (simp add: sort_desc_by_def list_ex_iff)
  show "mset (sort_desc_by engine f xs) = mset xs" by (simp add: eq)
  have "sorted (map (\<lambda>x. desc_key (f x)) (sort_key (\<lambda>x. desc_key (f x)) xs))"
    by (rule sorted_sort_key)
  hence srt: "sorted_wrt (\<lambda>a b. desc_key (f a) \<le> desc_key (f b)) (sort_key (\<lambda>x. desc_key (f x)) xs)"
    by (simp add: sorted_map)
  have "sorted_wrt (\<lambda>a b. fle (f b) (f a)) (sort_key (\<lambda>x. desc_key (f x)) xs)"
  proof (rule sorted_wrt_mono_rel [OF _ srt])
    fix x y
    assume "x \<in> set (sort_key (\<lambda>x. desc_key (f x)) xs)"
      and "y \<in> set (sort_key (\<lambda>x. desc_key (f x)) xs)"
      and le: "desc_key (f x) \<le> desc_key (f y)"
    hence "f x \<noteq> NaN" and "f y \<noteq> NaN" using assms by simp_all
    thus "fle (f y) (f x)" using le by (simp add: desc_key_le)
  qed
  thus "sorted_wrt (\<lambda>a b. fle (f b) (f a)) (sort_desc_by engine f xs)" by (simp only: eq)
  show "filter (\<lambda>x. f x = c) (sort_desc_by engine f xs) = filter (\<lambda>x. f x = c) xs"
    using sort_key_stable [of "\<lambda>x. desc_key (f x)" "desc_key c" xs]
    by (simp add: eq desc_key_eq)
qed

lemma num_or_0_not_NaN: "num_or_0 S p m \<noteq> NaN"
  by (simp add: num_or_0_def Let_def truthy_def)

lemma toFixed_not_NaN: "a \<noteq> NaN \<Longrightarrow> toFixed n a \<noteq> NaN"
  by (cases a) (simp_all add: fl_not_NaN)

lemma fmul_not_NaN: "a \<noteq> NaN \<Longrightarrow> y \<noteq> 0 \<Longrightarrow> fmul a (F y) \<noteq> NaN"
  by (cases a) (simp_all add: fl_not_NaN signed_inf_def)

lemma rd_nonzero:
  assumes "1 / 128 \<le> \<bar>w\<bar>"
  shows "rd w \<noteq> 0"
proof -
  have r: "rd (1 / 128) = 1 / 128" using rd_repr [of 1 "- 7"] by simp
  show ?thesis
  proof (cases "0 \<le> w")
    case True
    hence "rd (1 / 128) \<le> rd w" using assms by (intro rd_mono) simp
    thus ?thesis using r by simp
  next
    case False
    hence "rd (1 / 128) \<le> rd (- w)" using assms by (intro rd_mono) simp
    thus ?thesis using r by (simp add: rd_minus)
  qed
qed

lemma table_weights:
  "list_all (\<lambda>(r, d). list_all (\<lambda>(m, w). 1 / 128 \<le> \<bar>w\<bar> \<and> \<bar>w\<bar> \<le> 1) (metrics d)) ROLE_DEFINITIONS"
  by (simp add: ROLE_DEFINITIONS_def)

lemma table_contribution_not_NaN:
  assumes "map_of ROLE_DEFINITIONS r = Some d" and "mw \<in> set (metrics d)"
  shows "contribution (breakdownEntry S p mw) \<noteq> NaN"
proof -
  obtain m w where mw: "mw = (m, w)" by (cases mw)
  have "(r, d) \<in> set ROLE_DEFINITIONS" using assms(1) by (rule map_of_SomeD)
  hence "list_all (\<lambda>(m, w). 1 / 128 \<le> \<bar>w\<bar> \<and> \<bar>w\<bar> \<le> 1) (metrics d)"
    using table_weights by (auto simp: list_all_iff)
  hence w: "1 / 128 \<le> \<bar>w\<bar>" "\<bar>w\<bar> \<le> 1" using assms(2) mw by (auto simp: list_all_iff)
  have "\<bar>w\<bar> \<le> 2 ^ 53" using w(2) by simp
  hence "fl w = F (rd w)" by (rule fl_small)
  moreover have "rd w \<noteq> 0" using w(1) by (rule rd_nonzero)
  ultimately have "fmul (num_or_0 S p m) (fl w) \<noteq> NaN"
    using fmul_not_NaN [OF num_or_0_not_NaN] by simp
  thus ?thesis by (simp add: breakdownEntry_def mw toFixed_not_NaN)
qed

text \<open>
  C3 (as stated). The claim is that the breakdown is sorted by descending absolute
  contribution. It is not: the comparator is \<open>b.contribution - a.contribution\<close>, so a large
  negative contribution comes last. For \<open>Defensive CB\<close> (weight \<open>-0.05\<close> on fouls) a player
  with \<open>100\<close> fouls and \<open>10\<close> in duels won gets the contributions in the order
  \<open>1, 0, ..., 0, -5\<close>, which is not descending in absolute value.
\<close>

theorem calculateDetailedRoleScore_breakdown_signed_order:
  "map_option (map contribution \<circ> breakdown)
     (calculateDetailedRoleScore ROLE_DEFINITIONS (\<lambda>es. es) (\<lambda>s. NaN) fouler ''Defensive CB'' [fouler])
     = Some [F 1, F 0, F 0, F 0, F 0, F 0, F 0, F (- 5)]
   \<and> \<not> sorted_wrt (\<lambda>a b. fle (fabs b) (fabs a)) [F 1, F 0, F 0, F 0, F 0, F 0, F 0, F (- 5)]"
  by (simp add: calculateDetailedRoleScore_Some [OF Defensive_CB] contributions_fouler fle_def feq_def)

text \<open>
  C3 (amended). For every player, role of \<open>ROLE_DEFINITIONS\<close> and cohort, the breakdown
  has exactly one entry per metric of the role, with the metric's value
  (\<open>Number(player[metric]) || 0\<close>), its weight and the contribution: the double product
  \<open>value * weight\<close> rounded to three decimals by \<open>toFixed(3)\<close>. It is sorted by descending
  signed contribution (no entry is followed by one of greater contribution), and entries
  of equal contribution keep the order of the role's metrics.
\<close>

theorem calculateDetailedRoleScore_breakdown:
  assumes "map_of ROLE_DEFINITIONS r = Some d"
  shows "\<exists>res. calculateDetailedRoleScore ROLE_DEFINITIONS engine S p r cohort = Some res
           \<and> mset (breakdown res) = mset (map (breakdownEntry S p) (metrics d))
           \<and> sorted_wrt (\<lambda>a b. fle (contribution b) (contribution a)) (breakdown res)
           \<and> filter (\<lambda>e. contribution e = c) (breakdown res)
               = filter (\<lambda>e. contribution e = c) (map (breakdownEntry S p) (metrics d))"
proof -
  let ?es = "map (breakdownEntry S p) (metrics d)"
  have nn: "\<forall>e \<in> set ?es. contribution e \<noteq> NaN"
    using table_contribution_not_NaN [OF assms] by auto
  show ?thesis
    using sort_desc_by_sorted(2,3) [OF nn, of engine] sort_desc_by_sorted(4) [OF nn, of c engine]
    by (simp add: calculateDetailedRoleScore_Some [OF assms])
qed

theorem calculateDetailedRoleScore_breakdown_witness:
  "map_of ROLE_DEFINITIONS ''Defensive CB'' = Some defensiveCB
   \<and> (\<exists>res. calculateDetailedRoleScore ROLE_DEFINITIONS (\<lambda>es. es) (\<lambda>s. NaN) fouler ''Defensive CB'' [fouler]
           = Some res
         \<and> map contribution (breakdown res) = [F 1, F 0, F 0, F 0, F 0, F 0, F 0, F (- 5)]
         \<and> sorted_wrt (\<lambda>a b. fle (contribution b) (contribution a)) (breakdown res))"
proof -
  from calculateDetailedRoleScore_breakdown [OF Defensive_CB, of "\<lambda>es. es" "\<lambda>s. NaN" fouler "[fouler]" "F 0"]
  obtain res where
    res: "calculateDetailedRoleScore ROLE_DEFINITIONS (\<lambda>es. es) (\<lambda>s. NaN) fouler ''Defensive CB'' [fouler]
            = Some res"
    and srt: "sorted_wrt (\<lambda>a b. fle (contribution b) (contribution a)) (breakdown res)"
    by blast
  from res have "map contribution (breakdown res) = [F 1, F 0, F 0, F 0, F 0, F 0, F 0, F (- 5)]"
    by (auto simp add: calculateDetailedRoleScore_Some [OF Defensive_CB] contributions_fouler)
  with res srt have "\<exists>res. calculateDetailedRoleScore ROLE_DEFINITIONS (\<lambda>es. es) (\<lambda>s. NaN) fouler
           ''Defensive CB'' [fouler] = Some res
         \<and> map contribution (breakdown res) = [F 1, F 0, F 0, F 0, F 0, F 0, F 0, F (- 5)]
         \<and> sorted_wrt (\<lambda>a b. fle (contribution b) (contribution a)) (breakdown res)"
    by (intro exI [of _ res] conjI)
  with Defensive_CB show ?thesis by (rule conjI)
qed

section \<open>Properties of the data store\<close>

lemma getTeams_fresh:
  "teams_cache (computedCache st) = None \<Longrightarrow> fst (getTeams st) = teamsOfData (state st)"
  by (simp add: getTeams_def teamsOfData_def Let_def)

lemma getTeams_after_setPlayers:
  "fst (getTeams (setPlayers now ps st)) = teamsOfData (state (setPlayers now ps st))"
  by (rule getTeams_fresh) (simp add: setPlayers_def invalidateCache_def emptyCache_def)

text \<open>
  C4. The claim is that after \<open>setPlayers\<close>, \<open>setTeams\<close> or \<open>setShots\<close> every cached getter
  returns the value recomputed from the new data. \<open>setPlayers\<close> calls \<open>invalidateCache\<close>;
  \<open>setTeams\<close> and \<open>setShots\<close> do not. On an empty store, \<open>getTeams()\<close> caches \<open>[]\<close>;
  after \<open>setTeams([Arsenal])\<close> the next \<open>getTeams()\<close> still returns \<open>[]\<close>, and the value
  recomputed from the data is \<open>[Arsenal]\<close>.
\<close>

theorem getTeams_stale_after_setTeams:
  "fst (getTeams (setTeams now [arsenal] (snd (getTeams initialStore)))) = []
   \<and> teamsOfData (state (setTeams now [arsenal] (snd (getTeams initialStore)))) = [''Arsenal'']"
  by (simp add: getTeams_def setTeams_def initialStore_def emptyCache_def teamsOfData_def
      extractTeams_def truthy_strings_def arsenal_def List.map_filter_simps Let_def)

section \<open>Properties of k-means clustering\<close>

lemma kMeansLoop_rounds_le: "snd (snd (kMeansLoop n vs c a r)) \<le> r + n"
proof (induction n arbitrary: c a r)
  case 0
  show ?case by simp
next
  case (Suc n)
  show ?case
    using Suc [of "updateCentroids vs (map (nearestCentroid c) vs) c" "map (nearestCentroid c) vs" "Suc r"]
    by (simp add: Let_def)
qed

lemma kMeansRun_loop:
  assumes "\<not> (int (length data) < cfg_k config \<or> length (cfg_metrics config) = 0)"
  shows "fst (kMeansRun shuffle S data config) =
           snd (snd (kMeansLoop (nat (cfg_maxIterations config))
                       (kMeansVectors S data (cfg_metrics config))
                       (fst (kMeansInit shuffle S data config))
                       (snd (kMeansInit shuffle S data config)) 0))"
  using assms by (simp add: kMeansRun_def kMeansInit_def Let_def split_def)

lemma kMeansRun_rounds:
  "fst (kMeansRun shuffle S data config) \<le> nat (cfg_maxIterations config)"
proof (cases "int (length data) < cfg_k config \<or> length (cfg_metrics config) = 0")
  case True
  thus ?thesis by (simp add: kMeansRun_def)
next
  case False
  show ?thesis
    unfolding kMeansRun_loop [OF False]
    using kMeansLoop_rounds_le [of "nat (cfg_maxIterations config)" _ _ _ 0] by simp
qed

text \<open>
  The loop stops in the first round whose new assignments equal the current ones: when
  that is round \<open>j + 1\<close> and the cap allows it, \<open>j + 1\<close> rounds are started and the state
  is the one reached after \<open>j\<close> updates. When no round within the cap finds the assignments
  unchanged, the loop runs the cap out.
\<close>

lemma kMeansLoop_unfold:
  "kMeansLoop (Suc n) vs c a r =
     (if converged vs (c, a) then (c, a, Suc r)
      else kMeansLoop n vs (fst (kMeansStep vs (c, a))) (snd (kMeansStep vs (c, a))) (Suc r))"
  by (simp add: converged_def kMeansStep_def Let_def)

lemma kMeansLoop_stops:
  assumes "\<forall>i < j. \<not> converged vs ((kMeansStep vs ^^ i) (c, a))"
    and "converged vs ((kMeansStep vs ^^ j) (c, a))" and "j < n"
  shows "kMeansLoop n vs c a r =
           (fst ((kMeansStep vs ^^ j) (c, a)), snd ((kMeansStep vs ^^ j) (c, a)), r + Suc j)"
  using assms
proof (induction j arbitrary: n c a r)
  case 0
  then obtain m where n: "n = Suc m" by (cases n) simp_all
  show ?case using 0 unfolding n kMeansLoop_unfold by simp
next
  case (Suc j)
  then obtain m where n: "n = Suc m" by (cases n) simp_all
  have nc: "\<not> converged vs (c, a)" using Suc.prems(1) by (auto dest: spec [of _ 0])
  let ?s = "kMeansStep vs (c, a)"
  have shift: "(kMeansStep vs ^^ Suc i) (c, a) = (kMeansStep vs ^^ i) (fst ?s, snd ?s)" for i
    by (simp add: funpow_swap1)
  have a1: "\<forall>i < j. \<not> converged vs ((kMeansStep vs ^^ i) (fst ?s, snd ?s))"
  proof (intro allI impI)
    fix i assume "i < j"
    hence "Suc i < Suc j" by simp
    hence "\<not> converged vs ((kMeansStep vs ^^ Suc i) (c, a))" using Suc.prems(1) by blast
    thus "\<not> converged vs ((kMeansStep vs ^^ i) (fst ?s, snd ?s))" unfolding shift .
  qed
  have a2: "converged vs ((kMeansStep vs ^^ j) (fst ?s, snd ?s))"
    using Suc.prems(2) unfolding shift .
  have a3: "j < m" using Suc.prems(3) n by simp
  have "kMeansLoop n vs c a r = kMeansLoop m vs (fst ?s) (snd ?s) (Suc r)"
    unfolding n kMeansLoop_unfold using nc by simp
  also have "\<dots> = (fst ((kMeansStep vs ^^ j) (fst ?s, snd ?s)),
                     snd ((kMeansStep vs ^^ j) (fst ?s, snd ?s)), Suc r + Suc j)"
    using a1 a2 a3 by (rule Suc.IH)
  finally show ?case by (simp only: shift) simp
qed

lemma kMeansLoop_cap:
  assumes "\<forall>i < n. \<not> converged vs ((kMeansStep vs ^^ i) (c, a))"
  shows "kMeansLoop n vs c a r =
           (fst ((kMeansStep vs ^^ n) (c, a)), snd ((kMeansStep vs ^^ n) (c, a)), r + n)"
  using assms
proof (induction n arbitrary: c a r)
  case 0
  show ?case by simp
next
  case (Suc n)
  have nc: "\<not> converged vs (c, a)" using Suc.prems by (auto dest: spec [of _ 0])
  let ?s = "kMeansStep vs (c, a)"
  have shift: "(kMeansStep vs ^^ Suc i) (c, a) = (kMeansStep vs ^^ i) (fst ?s, snd ?s)" for i
    by (simp add: funpow_swap1)
  have a1: "\<forall>i < n. \<not> converged vs ((kMeansStep vs ^^ i) (fst ?s, snd ?s))"
  proof (intro allI impI)
    fix i assume "i < n"
    hence "Suc i < Suc n" by simp
    hence "\<not> converged vs ((kMeansStep vs ^^ Suc i) (c, a))" using Suc.prems by blast
    thus "\<not> converged vs ((kMeansStep vs ^^ i) (fst ?s, snd ?s))" unfolding shift .
  qed
  have "kMeansLoop (Suc n) vs c a r = kMeansLoop n vs (fst ?s) (snd ?s) (Suc r)"
    unfolding kMeansLoop_unfold using nc by simp
  also have "\<dots> = (fst ((kMeansStep vs ^^ n) (fst ?s, snd ?s)),
                     snd ((kMeansStep vs ^^ n) (fst ?s, snd ?s)), Suc r + n)"
    using a1 by (rule Suc.IH)
  finally show ?case by (simp only: shift) simp
qed

lemma map_throwing_Inr:
  "map_throwing f xs = Inr ys \<Longrightarrow> y \<in> set ys \<Longrightarrow> \<exists>x \<in> set xs. f x = Inr y"
  by (induction xs arbitrary: ys) (auto split: sum.splits)

lemma map_throwing_total:
  "\<forall>x \<in> set xs. \<exists>y. f x = Inr y \<Longrightarrow> \<exists>ys. map_throwing f xs = Inr ys"
proof (induction xs)
  case Nil
  show ?case by simp
next
  case (Cons a xs)
  then obtain y ys where "f a = Inr y" "map_throwing f xs = Inr ys" by auto
  then show ?case by simp
qed

lemma kMeansRun_clusters_nonempty:
  assumes "snd (kMeansRun shuffle S data config) = Inr results" and "r \<in> set results"
  shows "0 < clusterSize r \<and> clusterSize r = length (clusterPlayers r)"
proof (cases "int (length data) < cfg_k config \<or> length (cfg_metrics config) = 0")
  case True
  with assms show ?thesis by (auto simp: kMeansRun_def)
next
  case False
  define loop where "loop = kMeansLoop (nat (cfg_maxIterations config))
      (kMeansVectors S data (cfg_metrics config))
      (slice0 (cfg_k config) (shuffle (kMeansVectors S data (cfg_metrics config))))
      (replicate (length (kMeansVectors S data (cfg_metrics config))) 0) 0"
  define mk where "mk = (\<lambda>(idx, c).
       let clusterPlayers = membersOf (fst (snd loop)) data idx
       in case generateClusterLabel S clusterPlayers (cfg_metrics config)
                 (\<lambda>m. calculateMetricBounds S data m) of
            Inl e \<Rightarrow> Inl e
          | Inr l \<Rightarrow>
              Inr \<lparr>clusterId = idx, centroid = c, clusterPlayers = clusterPlayers,
                   clusterSize = length clusterPlayers, label = l\<rparr>)"
  from assms(1) False obtain rs where
    rs: "map_throwing mk (zip [0..<length (fst loop)] (fst loop)) = Inr rs"
    and res: "results = sort_desc_size clusterSize (filter (\<lambda>r. clusterSize r > 0) rs)"
    by (auto simp: kMeansRun_def Let_def split_def loop_def mk_def split: sum.splits)
  from assms(2) res have r: "r \<in> set rs" and pos: "0 < clusterSize r"
    by (auto simp: sort_desc_size_def)
  from map_throwing_Inr [OF rs r] obtain x where "mk x = Inr r" by blast
  then have "clusterSize r = length (clusterPlayers r)"
    by (auto simp: mk_def Let_def split_def split: sum.splits)
  with pos show ?thesis by simp
qed

lemma firstPosition_total:
  "(\<And>x. field p ''Position'' \<noteq> Some (Num x)) \<Longrightarrow> \<exists>s. firstPosition p = Inr s"
  by (auto simp: firstPosition_def split: option.splits cell.splits list.splits)

lemma generateClusterLabel_total:
  assumes "\<And>p x. p \<in> set ps \<Longrightarrow> field p ''Position'' \<noteq> Some (Num x)"
  shows "\<exists>l. generateClusterLabel S ps ms bounds = Inr l"
proof -
  have "\<forall>p \<in> set ps. \<exists>s. firstPosition p = Inr s"
    using assms firstPosition_total by blast
  then have "\<exists>ys. map_throwing firstPosition ps = Inr ys"
    by (rule map_throwing_total)
  then show ?thesis
    by (auto simp: generateClusterLabel_def Let_def split: sum.splits list.splits)
qed

lemma set_membersOf: "set (membersOf a xs i) \<subseteq> set xs"
  by (auto simp: membersOf_def dest: set_zip_rightD)

lemma kMeansRun_returns:
  assumes "\<And>p x. p \<in> set data \<Longrightarrow> field p ''Position'' \<noteq> Some (Num x)"
  shows "\<exists>results. snd (kMeansRun shuffle S data config) = Inr results"
proof (cases "int (length data) < cfg_k config \<or> length (cfg_metrics config) = 0")
  case True
  then show ?thesis by (auto simp: kMeansRun_def)
next
  case False
  define loop where "loop = kMeansLoop (nat (cfg_maxIterations config))
      (kMeansVectors S data (cfg_metrics config))
      (slice0 (cfg_k config) (shuffle (kMeansVectors S data (cfg_metrics config))))
      (replicate (length (kMeansVectors S data (cfg_metrics config))) 0) 0"
  define mk where "mk = (\<lambda>(idx, c).
       let clusterPlayers = membersOf (fst (snd loop)) data idx
       in case generateClusterLabel S clusterPlayers (cfg_metrics config)
                 (\<lambda>m. calculateMetricBounds S data m) of
            Inl e \<Rightarrow> Inl e
          | Inr l \<Rightarrow>
              Inr \<lparr>clusterId = idx, centroid = c, clusterPlayers = clusterPlayers,
                   clusterSize = length clusterPlayers, label = l\<rparr>)"
  have "\<exists>y. mk x = Inr y" for x :: "nat \<times> num list"
  proof -
    have "\<exists>l. generateClusterLabel S (membersOf (fst (snd loop)) data (fst x)) (cfg_metrics config)
                 (\<lambda>m. calculateMetricBounds S data m) = Inr l"
      using assms set_membersOf [of "fst (snd loop)" data "fst x"]
      by (intro generateClusterLabel_total) blast
    then show ?thesis by (auto simp: mk_def split_def Let_def)
  qed
  then have "\<forall>x \<in> set (zip [0..<length (fst loop)] (fst loop)). \<exists>y. mk x = Inr y"
    by blast
  then obtain rs where "map_throwing mk (zip [0..<length (fst loop)] (fst loop)) = Inr rs"
    using map_throwing_total by blast
  then show ?thesis
    using False by (simp add: kMeansRun_def Let_def split_def loop_def mk_def)
qed

lemma rd_7_10: "rd (7 / 10) = 3152519739159347 / 4503599627370496"
  by (subst rd_eval [where e = "- 53"]) (simp_all add: round_even_def)

lemma usable_AB: "usableValues (\<lambda>s. NaN) [rowA, rowB] ''xG'' = [0, 1]"
  by (simp add: usableValues_def field_def rowA_def rowB_def fl_simps)

lemma bounds_AB:
  "minB (calculateMetricBounds (\<lambda>s. NaN) [rowA, rowB] ''xG'') = F 0"
  "maxB (calculateMetricBounds (\<lambda>s. NaN) [rowA, rowB] ''xG'') = F 1"
  by (simp_all add: calculateMetricBounds_min_max usable_AB)

lemma xG_AB:
  "num_or_0 (\<lambda>s. NaN) rowA ''xG'' = F 0" "num_or_0 (\<lambda>s. NaN) rowB ''xG'' = F 1"
  by (simp_all add: num_or_0_def field_def rowA_def rowB_def truthy_def fl_simps)

lemma normalize_AB:
  "normalizeValue (F 0) (calculateMetricBounds (\<lambda>s. NaN) [rowA, rowB] ''xG'') = F 0"
  "normalizeValue (F 1) (calculateMetricBounds (\<lambda>s. NaN) [rowA, rowB] ''xG'') = F 1"
  by (simp_all add: normalizeValue_def bounds_AB fsub_def feq_def Math_max2_def Math_min2_def fl_simps)

lemma vectors_AB: "kMeansVectors (\<lambda>s. NaN) [rowA, rowB] [''xG''] = [[F 0], [F 1]]"
  by (simp add: kMeansVectors_def xG_AB normalize_AB)

lemma init_AB: "kMeansInit (\<lambda>vs. vs) (\<lambda>s. NaN) [rowA, rowB] (twoClusters cap) = ([[F 0], [F 1]], [0, 0])"
  by (simp add: kMeansInit_def twoClusters_def vectors_AB slice0_def)

lemma distance_AB:
  "euclideanDistance [F 0] [F 0] = F 0" "euclideanDistance [F 0] [F 1] = F 1"
  "euclideanDistance [F 1] [F 0] = F 1" "euclideanDistance [F 1] [F 1] = F 0"
  by (simp_all add: euclideanDistance_def fsub_def fpow2_def fl_simps)

lemma nearest_AB:
  "nearestCentroid [[F 0], [F 1]] [F 0] = 0" "nearestCentroid [[F 0], [F 1]] [F 1] = Suc 0"
  by (simp_all add: nearestCentroid_def distance_AB)

lemma update_AB: "updateCentroids [[F 0], [F 1]] [0, Suc 0] [[F 0], [F 1]] = [[F 0], [F 1]]"
  by (simp add: updateCentroids_def membersOf_def fl_simps)

lemma step_AB: "kMeansStep [[F 0], [F 1]] ([[F 0], [F 1]], a) = ([[F 0], [F 1]], [0, Suc 0])"
  by (simp add: kMeansStep_def nearest_AB update_AB)

lemma converged_AB:
  "\<not> converged [[F 0], [F 1]] ([[F 0], [F 1]], [0, 0])"
  "converged [[F 0], [F 1]] ([[F 0], [F 1]], [0, Suc 0])"
  by (simp_all add: converged_def nearest_AB)

lemma loop_AB: "kMeansLoop 5 [[F 0], [F 1]] [[F 0], [F 1]] [0, 0] 0 = ([[F 0], [F 1]], [0, 1], 2)"
  by (simp add: eval_nat_numeral Let_def nearest_AB update_AB)

lemma firstPosition_rowA: "firstPosition rowA = Inr ''Unknown''"
  by (simp add: firstPosition_def field_def rowA_def)

lemma firstWord_xG: "firstWord ''xG'' = ''xG''"
  by (simp add: firstWord_def)

lemma labels_AB:
  "generateClusterLabel (\<lambda>s. NaN) [rowA] [''xG''] (\<lambda>m. calculateMetricBounds (\<lambda>s. NaN) [rowA, rowB] m)
     = Inr ''Unknown Group''"
  "generateClusterLabel (\<lambda>s. NaN) [rowB] [''xG''] (\<lambda>m. calculateMetricBounds (\<lambda>s. NaN) [rowA, rowB] m)
     = Inr ''High xG''"
  by (simp_all add: generateClusterLabel_def js_sum_def xG_AB normalize_AB firstWord_xG
      firstPosition_rowA sort_desc_size_def Let_def fl_simps fl_F rd_7_10)

lemma run_AB:
  "kMeansRun (\<lambda>vs. vs) (\<lambda>s. NaN) [rowA, rowB] (twoClusters 5)
     = (2, Inr [\<lparr>clusterId = 0, centroid = [F 0], clusterPlayers = [rowA], clusterSize = 1,
                   label = ''Unknown Group''\<rparr>,
                \<lparr>clusterId = 1, centroid = [F 1], clusterPlayers = [rowB], clusterSize = 1,
                   label = ''High xG''\<rparr>])"
  by (simp add: kMeansRun_def twoClusters_def vectors_AB slice0_def loop_AB membersOf_def
      labels_AB sort_desc_size_def)

text \<open>
  C8. For a pool and a configuration with \<open>k\<close> at most the size of the pool and a non-empty
  metric list, \<open>kMeansClustering\<close> stops after at most \<open>maxIterations\<close> rounds of
  assignment and update. It stops earlier when the assignments stop changing: if round
  \<open>j + 1\<close> is the first whose new assignments equal the current ones, and the cap allows
  that round, exactly \<open>j + 1\<close> rounds are started; if no round within the cap finds the
  assignments unchanged, exactly \<open>maxIterations\<close> rounds are started. Every cluster of a
  result set it returns has at least one member, and it returns a result set whenever no
  \<open>Position\<close> cell of the pool is a number (the declared type).
\<close>

theorem kMeansClustering_bounded_rounds_nonempty_clusters:
  assumes "cfg_k config \<le> int (length data)" and "cfg_metrics config \<noteq> []"
  shows "fst (kMeansRun shuffle S data config) \<le> nat (cfg_maxIterations config)
         \<and> (\<forall>j. j < nat (cfg_maxIterations config)
                 \<and> (\<forall>i < j. \<not> converged (kMeansVectors S data (cfg_metrics config))
                                  ((kMeansStep (kMeansVectors S data (cfg_metrics config)) ^^ i)
                                     (kMeansInit shuffle S data config)))
                 \<and> converged (kMeansVectors S data (cfg_metrics config))
                     ((kMeansStep (kMeansVectors S data (cfg_metrics config)) ^^ j)
                        (kMeansInit shuffle S data config))
               \<longrightarrow> fst (kMeansRun shuffle S data config) = Suc j)
         \<and> ((\<forall>i < nat (cfg_maxIterations config).
                 \<not> converged (kMeansVectors S data (cfg_metrics config))
                     ((kMeansStep (kMeansVectors S data (cfg_metrics config)) ^^ i)
                        (kMeansInit shuffle S data config)))
               \<longrightarrow> fst (kMeansRun shuffle S data config) = nat (cfg_maxIterations config))
         \<and> (\<forall>results. kMeansClustering shuffle S data config = Inr results \<longrightarrow>
               (\<forall>r \<in> set results. 0 < clusterSize r \<and> clusterSize r = length (clusterPlayers r)))
         \<and> ((\<forall>p \<in> set data. \<forall>x. field p ''Position'' \<noteq> Some (Num x)) \<longrightarrow>
               (\<exists>results. kMeansClustering shuffle S data config = Inr results))"
proof -
  let ?vs = "kMeansVectors S data (cfg_metrics config)"
  let ?init = "kMeansInit shuffle S data config"
  let ?cap = "nat (cfg_maxIterations config)"
  have guard: "\<not> (int (length data) < cfg_k config \<or> length (cfg_metrics config) = 0)"
    using assms by simp
  have init: "?init = (fst ?init, snd ?init)" by simp
  have rounds: "fst (kMeansRun shuffle S data config)
                  = snd (snd (kMeansLoop ?cap ?vs (fst ?init) (snd ?init) 0))"
    by (rule kMeansRun_loop [OF guard])
  have a: "fst (kMeansRun shuffle S data config) \<le> ?cap"
    by (rule kMeansRun_rounds)
  have b: "fst (kMeansRun shuffle S data config) = Suc j"
    if "j < ?cap" and "\<forall>i < j. \<not> converged ?vs ((kMeansStep ?vs ^^ i) ?init)"
      and "converged ?vs ((kMeansStep ?vs ^^ j) ?init)" for j
    unfolding rounds
    using kMeansLoop_stops [of j ?vs "fst ?init" "snd ?init" ?cap 0] that by simp
  have c: "fst (kMeansRun shuffle S data config) = ?cap"
    if "\<forall>i < ?cap. \<not> converged ?vs ((kMeansStep ?vs ^^ i) ?init)"
    unfolding rounds
    using kMeansLoop_cap [of ?cap ?vs "fst ?init" "snd ?init" 0] that by simp
  have d: "0 < clusterSize r \<and> clusterSize r = length (clusterPlayers r)"
    if "kMeansClustering shuffle S data config = Inr results" and "r \<in> set results" for results r
    using that by (intro kMeansRun_clusters_nonempty [of shuffle S data config results r])
      (simp_all add: kMeansClustering_def)
  have e: "\<exists>results. kMeansClustering shuffle S data config = Inr results"
    if "\<forall>p \<in> set data. \<forall>x. field p ''Position'' \<noteq> Some (Num x)"
    unfolding kMeansClustering_def using that by (intro kMeansRun_returns) blast
  from a b c d e show ?thesis by blast
qed

theorem kMeansClustering_bounded_rounds_nonempty_clusters_witness:
  "fst (kMeansRun (\<lambda>vs. vs) (\<lambda>s. NaN) [rowA, rowB] (twoClusters 5)) = 2
   \<and> fst (kMeansRun (\<lambda>vs. vs) (\<lambda>s. NaN) [rowA, rowB] (twoClusters 1)) = 1
   \<and> (\<exists>results. kMeansClustering (\<lambda>vs. vs) (\<lambda>s. NaN) [rowA, rowB] (twoClusters 5) = Inr results
         \<and> list_all (\<lambda>r. 0 < clusterSize r) results
         \<and> map clusterPlayers results = [[rowA], [rowB]])"
proof -
  let ?results =
    "[\<lparr>clusterId = 0, centroid = [F 0], clusterPlayers = [rowA], clusterSize = 1,
        label = ''Unknown Group''\<rparr>,
      \<lparr>clusterId = 1, centroid = [F 1], clusterPlayers = [rowB], clusterSize = 1,
        label = ''High xG''\<rparr>]"
  have k: "cfg_k (twoClusters cap) \<le> int (length [rowA, rowB])"
    and m: "cfg_metrics (twoClusters cap) \<noteq> []" for cap
    by (simp_all add: twoClusters_def)
  have vs: "kMeansVectors (\<lambda>s. NaN) [rowA, rowB] (cfg_metrics (twoClusters cap)) = [[F 0], [F 1]]" for cap
    by (simp add: twoClusters_def vectors_AB)
  note t5 = kMeansClustering_bounded_rounds_nonempty_clusters [OF k [of 5] m [of 5],
      where shuffle = "\<lambda>vs. vs" and S = "\<lambda>s. NaN"]
  note t1 = kMeansClustering_bounded_rounds_nonempty_clusters [OF k [of 1] m [of 1],
      where shuffle = "\<lambda>vs. vs" and S = "\<lambda>s. NaN"]
  have "Suc 0 < nat (cfg_maxIterations (twoClusters 5))
        \<and> (\<forall>i < Suc 0. \<not> converged [[F 0], [F 1]]
               ((kMeansStep [[F 0], [F 1]] ^^ i) ([[F 0], [F 1]], [0, 0])))
        \<and> converged [[F 0], [F 1]] ((kMeansStep [[F 0], [F 1]] ^^ Suc 0) ([[F 0], [F 1]], [0, 0]))"
    by (simp add: twoClusters_def step_AB converged_AB)
  with t5 have a: "fst (kMeansRun (\<lambda>vs. vs) (\<lambda>s. NaN) [rowA, rowB] (twoClusters 5)) = Suc (Suc 0)"
    unfolding vs init_AB by blast
  have "\<forall>i < nat (cfg_maxIterations (twoClusters 1)).
          \<not> converged [[F 0], [F 1]] ((kMeansStep [[F 0], [F 1]] ^^ i) ([[F 0], [F 1]], [0, 0]))"
    by (simp add: twoClusters_def converged_AB)
  with t1 have b: "fst (kMeansRun (\<lambda>vs. vs) (\<lambda>s. NaN) [rowA, rowB] (twoClusters 1))
                     = nat (cfg_maxIterations (twoClusters 1))"
    unfolding vs init_AB by blast
  have run: "kMeansClustering (\<lambda>vs. vs) (\<lambda>s. NaN) [rowA, rowB] (twoClusters 5) = Inr ?results"
    by (simp add: kMeansClustering_def run_AB)
  from t5 run have "\<forall>r \<in> set ?results. 0 < clusterSize r"
    by blast
  then have c: "list_all (\<lambda>r. 0 < clusterSize r) ?results"
    unfolding list_all_iff .
  from a b c run show ?thesis by (simp add: twoClusters_def)
qed

text \<open>
  C9. When \<open>k\<close> is strictly greater than the number of input players, or the metric list is
  empty, \<open>kMeansClustering\<close> returns the empty result set (it does not throw) without
  starting a round of the algorithm.
\<close>

theorem kMeansClustering_rejects_degenerate_input:
  assumes "int (length data) < cfg_k config \<or> cfg_metrics config = []"
  shows "kMeansClustering shuffle S data config = Inr [] \<and> fst (kMeansRun shuffle S data config) = 0"
  using assms by (auto simp: kMeansClustering_def kMeansRun_def)

theorem kMeansClustering_rejects_degenerate_input_witness:
  "kMeansClustering (\<lambda>vs. vs) (\<lambda>s. NaN) [rowA, rowB]
     \<lparr>cfg_k = 3, cfg_maxIterations = 5, cfg_metrics = [''xG'']\<rparr> = Inr []
   \<and> kMeansClustering (\<lambda>vs. vs) (\<lambda>s. NaN) [rowA, rowB]
     \<lparr>cfg_k = 2, cfg_maxIterations = 5, cfg_metrics = []\<rparr> = Inr []"
  using kMeansClustering_rejects_degenerate_input [of "[rowA, rowB]"
      "\<lparr>cfg_k = 3, cfg_maxIterations = 5, cfg_metrics = [''xG'']\<rparr>" "\<lambda>vs. vs" "\<lambda>s. NaN"]
    kMeansClustering_rejects_degenerate_input [of "[rowA, rowB]"
      "\<lparr>cfg_k = 2, cfg_maxIterations = 5, cfg_metrics = []\<rparr>" "\<lambda>vs. vs" "\<lambda>s. NaN"]
  by simp

section \<open>Properties of the similarity service\<close>

lemma keys_AB: "extractNumericMetricKeys [rowA, rowB] = [''xG'']"
  by (simp add: extractNumericMetricKeys_def rowA_def field_def EXCLUDED_METRIC_KEYS_def PROFILE_KEYS_def)

lemma keys_profileOnly: "extractNumericMetricKeys [profileOnly] = []"
  by (simp add: extractNumericMetricKeys_def profileOnly_def field_def EXCLUDED_METRIC_KEYS_def
      PROFILE_KEYS_def)

lemma keep_rows:
  "keepCandidate (\<lambda>s. NaN) rowB False False (F 450) rowA = Inr True"
  "keepCandidate (\<lambda>s. NaN) rowB False False (F 450) rowB = Inr False"
  "keepCandidate (\<lambda>s. NaN) rowB False False (F 450) profileOnly = Inr True"
  by (simp_all add: keepCandidate_def num_or_0_def field_def rowA_def rowB_def profileOnly_def
      truthy_def fl_simps)

lemma manhattan_rows:
  "manhattanDistance (\<lambda>s. NaN) rowB rowA [''xG'']
     (\<lambda>key. calculateMetricBounds (\<lambda>s. NaN) [rowA, rowB] key) [''xG'' \<mapsto> F (- 1)] = F (- 1)"
  by (simp add: manhattanDistance_def xG_AB normalize_AB weight_or_1_def truthy_def fsub_def fl_simps)

lemma rd_6_10: "rd (3 / 5) = 5404319552844595 / 9007199254740992"
  by (subst rd_eval [where e = "- 53"]) (simp_all add: round_even_def)

lemma rd_6_10_idem: "rd (5404319552844595 / 9007199254740992) = 5404319552844595 / 9007199254740992"
  by (subst rd_eval [where e = "- 53"]) (simp_all add: round_even_def)

lemma rd_267_q: "rd (- (9007199254740992 / 5404319552844595)) = - (7505999378950827 / 4503599627370496)"
  by (subst rd_eval [where e = "- 52"]) (simp_all add: round_even_def)

lemma rd_267_t: "rd (12009599006321323 / 4503599627370496) = 3002399751580331 / 1125899906842624"
  by (subst rd_eval [where e = "- 51"]) (simp_all add: round_even_def)

lemma rd_267_h: "rd (75059993789508275 / 281474976710656) = 4691249611844267 / 17592186044416"
  by (subst rd_eval [where e = "- 44"]) (simp_all add: round_even_def)

lemma scores:
  "similarityScore (F (- 1)) (Suc 0) = F 267"
  "similarityScore (F 0) 0 = NaN"
  by (simp_all add: similarityScore_def fsub_def Math_max2_def signed_inf_def fl_simps fl_F
      rd_6_10 rd_6_10_idem rd_267_q rd_267_t rd_267_h)

lemma euclid_empty: "euclideanDistancePlayers S pa pb [] bounds = F 0"
  by (simp add: euclideanDistancePlayers_def fl_simps)

lemma run_negativeWeight:
  "findSimilarPlayers engine (\<lambda>s. NaN) rowB [rowA, rowB] negativeWeight =
     Inr [\<lparr>sim_player = rowA, sim_score = F 267, sim_distance = F (- 1), matchedMetrics = 1,
            sim_breakdown = []\<rparr>]"
  by (simp add: findSimilarPlayers_def negativeWeight_def or_default_def keep_rows keys_AB
      distanceByAlgorithm_def manhattan_rows scores sort_desc_by_def slice0_def Let_def)

lemma run_profileOnly:
  "findSimilarPlayers (\<lambda>rs. rs) (\<lambda>s. NaN) rowB [profileOnly] defaultOptions =
     Inr [\<lparr>sim_player = profileOnly, sim_score = NaN, sim_distance = F 0, matchedMetrics = 0,
            sim_breakdown = []\<rparr>]"
  by (simp add: findSimilarPlayers_def defaultOptions_def or_default_def keep_rows keys_profileOnly
      distanceByAlgorithm_def euclid_empty scores sort_desc_by_def slice0_def Let_def)

text \<open>
  C7. The claim ends: every result returned by \<open>findSimilarPlayers\<close> has a score in
  \<open>[0, 100]\<close>, and the code has the comment "score de similarite (0-100)" on the line
  that computes it. The code clamps the score below (\<open>Math.max(0, ...)\<close>) but not above,
  and it guards neither the weights nor the metric count. With the \<open>'manhattan'\<close>
  algorithm and the custom weight \<open>-1\<close> the distance is \<open>-1\<close> and the score \<open>267\<close>. With
  the default options and candidates whose first row has no numeric metric column, the
  metric count is \<open>0\<close> and the score is \<open>Math.max(0, Math.round(100 * (1 - 0 / 0)))\<close>,
  that is \<open>NaN\<close> (the sort is then the engine's; an array of one element stays as it is).
\<close>

theorem findSimilarPlayers_score_out_of_range:
  "findSimilarPlayers (\<lambda>rs. rs) (\<lambda>s. NaN) rowB [rowA, rowB] negativeWeight =
     Inr [\<lparr>sim_player = rowA, sim_score = F 267, sim_distance = F (- 1), matchedMetrics = 1,
            sim_breakdown = []\<rparr>]
   \<and> \<not> fle (F 267) (F 100)
   \<and> findSimilarPlayers (\<lambda>rs. rs) (\<lambda>s. NaN) rowB [profileOnly] defaultOptions =
     Inr [\<lparr>sim_player = profileOnly, sim_score = NaN, sim_distance = F 0, matchedMetrics = 0,
            sim_breakdown = []\<rparr>]"
  using run_negativeWeight [of "\<lambda>rs. rs"] run_profileOnly by (simp add: fle_def feq_def)

end
